theory Spec2Isabelle
  imports Complex_Main "HOL-Library.Sublist"
begin

section \<open>Crop planning of scripts/autoclip/crop.py\<close>

text \<open>
  Conventions of the embedding.
  \<^item> Python \<open>int\<close> is \<^typ>\<open>int\<close>. Python \<open>float\<close> (binary64) is idealised as
    \<^typ>\<open>real\<close>: every operation is taken to be exact. The idealisation can differ from
    the code where a rounded float is compared or truncated at an exact boundary: an
    exact tie of two totals in the scoring loop of \<open>pick_face_center\<close>, a product that
    is an integer in exact arithmetic in \<open>screen_scaled_size\<close> and in \<open>linspace_int\<close>
    (the code may then be one less), and the accumulated smoothed centers. The
    properties below do not depend on which way these fall.
  \<^item> \<open>int(x)\<close> on a float truncates toward zero (\<open>py_int\<close>); \<open>round(x)\<close> rounds
    half to even (\<open>py_round\<close>).
  \<^item> The external collaborators are inputs: a video is a record of what
    \<open>cv2.VideoCapture\<close> reports, the face detector is a function from frames to raw
    boxes, the optical flow estimator a function from two frames to a flow field, and
    the encoder process is described by the number of frames its pipe accepts and its
    exit code.
  \<^item> Every \<open>raise\<close> is a value of \<open>error\<close>.
\<close>

subsection \<open>Constants\<close>

definition MIN_FACE_AREA_RATIO :: real where "MIN_FACE_AREA_RATIO = 1 / 1000"
definition MIN_FACE_SCORE :: real where "MIN_FACE_SCORE = 1 / 2"
definition GROUP_FACE_AREA_RATIO :: real where "GROUP_FACE_AREA_RATIO = 6 / 10"
definition GROUP_MAX_SPAN_RATIO :: real where "GROUP_MAX_SPAN_RATIO = 9 / 10"
definition MISSING_FACE_SECONDS :: real where "MISSING_FACE_SECONDS = 2"
definition DEFAULT_FPS :: real where "DEFAULT_FPS = 30"

subsection \<open>Errors\<close>

datatype error =
    UnableToOpenFace            \<comment> \<open>RuntimeError("Unable to open video for face crop.")\<close>
  | UnableToOpenScreen          \<comment> \<open>RuntimeError("Unable to open video for screen crop.")\<close>
  | InvalidVideoDimensions int int
  | InvalidCropSize int int
  | FFmpegPipeBroke nat         \<comment> \<open>BrokenPipeError in \<open>write_frame\<close>, after so many frames\<close>
  | FFmpegExited int
  | ZeroDivisionError
  | ResizeError                 \<comment> \<open>\<open>cv2.resize\<close> to an empty size\<close>
  | BroadcastError              \<comment> \<open>numpy assignment of a slice of another width\<close>

subsection \<open>Number conversions\<close>

definition py_int :: "real \<Rightarrow> int" where
  "py_int r = (if 0 \<le> r then \<lfloor>r\<rfloor> else \<lceil>r\<rceil>)"

definition py_round :: "real \<Rightarrow> int" where
  "py_round r =
     (let f = \<lfloor>r\<rfloor>; d = r - of_int f
      in if d < 1 / 2 then f else if 1 / 2 < d then f + 1
         else if even f then f else f + 1)"

definition clamp :: "'a::linorder \<Rightarrow> 'a \<Rightarrow> 'a \<Rightarrow> 'a" where
  "clamp v min_value max_value = max min_value (min v max_value)"

subsection \<open>Frame source and frame sink\<close>

record 'f video =
  is_opened :: bool             \<comment> \<open>\<open>cap.isOpened()\<close>\<close>
  cap_width :: int              \<comment> \<open>\<open>int(cap.get(CAP_PROP_FRAME_WIDTH))\<close>\<close>
  cap_height :: int             \<comment> \<open>\<open>int(cap.get(CAP_PROP_FRAME_HEIGHT))\<close>\<close>
  cap_fps :: real               \<comment> \<open>\<open>cap.get(CAP_PROP_FPS)\<close>, 0 when unavailable\<close>
  cap_frame_count :: int        \<comment> \<open>\<open>int(cap.get(CAP_PROP_FRAME_COUNT))\<close>\<close>
  cap_frames :: "'f list"       \<comment> \<open>what successive \<open>cap.read()\<close> calls deliver\<close>

record sink =
  pipe_capacity :: "nat option" \<comment> \<open>frames accepted before the pipe breaks; None: all\<close>
  exit_code :: int              \<comment> \<open>\<open>ffmpeg_proc.wait()\<close>\<close>

definition pipe_accepts :: "sink \<Rightarrow> nat \<Rightarrow> bool" where
  "pipe_accepts s frames_written =
     (case pipe_capacity s of None \<Rightarrow> True | Some c \<Rightarrow> frames_written < c)"

definition resolve_fps :: "'f video \<Rightarrow> real" where
  "resolve_fps cap = (let fps = cap_fps cap in if fps \<le> 0 then DEFAULT_FPS else fps)"

definition ensure_valid_dimensions :: "int \<Rightarrow> int \<Rightarrow> error option" where
  "ensure_valid_dimensions width height =
     (if width < 2 \<or> height < 2 then Some (InvalidVideoDimensions width height) else None)"

subsection \<open>Target geometry\<close>

text \<open>Lines 249-258 of \<open>crop_face_tracking\<close>.\<close>

definition face_target_size :: "int \<Rightarrow> int \<Rightarrow> error + int \<times> int" where
  "face_target_size width height =
     (let target_height = height;
          target_width = py_int (of_int (target_height * 9) / 16);
          target_width = (if target_width > width then width else target_width);
          target_width = target_width - target_width mod 2;
          target_height = target_height - target_height mod 2
      in if target_width < 2 \<or> target_height < 2
         then Inl (InvalidCropSize target_width target_height)
         else Inr (target_width, target_height))"

text \<open>Lines 378-385 of \<open>crop_screen_tracking\<close>.\<close>

definition screen_target_size :: "int \<Rightarrow> int \<Rightarrow> error + int \<times> int" where
  "screen_target_size width height =
     (let target_height = height;
          target_width = py_int (of_int (target_height * 9) / 16);
          target_width = target_width - target_width mod 2;
          target_height = target_height - target_height mod 2
      in if target_width < 2 \<or> target_height < 2
         then Inl (InvalidCropSize target_width target_height)
         else Inr (target_width, target_height))"

text \<open>Both planners validate the source size first (lines 243 and 372).\<close>

definition face_geometry :: "int \<Rightarrow> int \<Rightarrow> error + int \<times> int" where
  "face_geometry width height =
     (case ensure_valid_dimensions width height of
        Some e \<Rightarrow> Inl e
      | None \<Rightarrow> face_target_size width height)"

definition screen_geometry :: "int \<Rightarrow> int \<Rightarrow> error + int \<times> int" where
  "screen_geometry width height =
     (case ensure_valid_dimensions width height of
        Some e \<Rightarrow> Inl e
      | None \<Rightarrow> screen_target_size width height)"

subsection \<open>Face boxes\<close>

text \<open>\<open>FaceBox = Tuple[int, int, int, int, float]\<close>: x, y, w, h, score.\<close>

type_synonym FaceBox = "int \<times> int \<times> int \<times> int \<times> real"

fun face_area :: "FaceBox \<Rightarrow> int" where
  "face_area (x, y, w, h, score) = w * h"

fun face_x :: "FaceBox \<Rightarrow> int" where
  "face_x (x, y, w, h, score) = x"

fun face_right :: "FaceBox \<Rightarrow> int" where
  "face_right (x, y, w, h, score) = x + w"

fun face_score :: "FaceBox \<Rightarrow> real" where
  "face_score (x, y, w, h, score) = score"

text \<open>The clamping of one box, lines 76-79 of \<open>normalize_faces\<close>.\<close>

fun clamp_box :: "int \<Rightarrow> int \<Rightarrow> FaceBox \<Rightarrow> FaceBox" where
  "clamp_box frame_width frame_height (x, y, w, h, score) =
     (let x' = clamp x 0 (frame_width - 1);
          y' = clamp y 0 (frame_height - 1);
          w' = clamp w 1 (frame_width - x');
          h' = clamp h 1 (frame_height - y')
      in (x', y', w', h', score))"

text \<open>The loop of \<open>normalize_faces\<close>, with the list \<open>normalized\<close> as accumulator.\<close>

fun normalize_loop :: "real \<Rightarrow> int \<Rightarrow> int \<Rightarrow> FaceBox list \<Rightarrow> FaceBox list \<Rightarrow> FaceBox list" where
  "normalize_loop min_area frame_width frame_height normalized [] = normalized"
| "normalize_loop min_area frame_width frame_height normalized (face # rest) =
     (if face_score face < MIN_FACE_SCORE
      then normalize_loop min_area frame_width frame_height normalized rest
      else let clamped = clamp_box frame_width frame_height face
           in if of_int (face_area clamped) < min_area
              then normalize_loop min_area frame_width frame_height normalized rest
              else normalize_loop min_area frame_width frame_height (normalized @ [clamped]) rest)"

definition normalize_faces :: "FaceBox list \<Rightarrow> int \<Rightarrow> int \<Rightarrow> FaceBox list" where
  "normalize_faces faces frame_width frame_height =
     normalize_loop (of_int (frame_width * frame_height) * MIN_FACE_AREA_RATIO)
       frame_width frame_height [] faces"

text \<open>
  \<open>sorted(faces, key=face_area, reverse=True)\<close>: a stable sort, largest area first,
  boxes of equal area in their given order.
\<close>

definition sort_by_area_desc :: "FaceBox list \<Rightarrow> FaceBox list" where
  "sort_by_area_desc faces = sort_key (\<lambda>face. - face_area face) faces"

text \<open>\<open>min(...)\<close> and \<open>max(...)\<close> over a generator; called on non-empty groups only.\<close>

fun py_min :: "int list \<Rightarrow> int" where
  "py_min (x # xs) = fold min xs x"
| "py_min [] = 0"

fun py_max :: "int list \<Rightarrow> int" where
  "py_max (x # xs) = fold max xs x"
| "py_max [] = 0"

text \<open>
  The scoring loop, lines 176-183, with \<open>(best_score, best_center)\<close> as state. The
  totals are exact here; in the code they are rounded, so two boxes whose exact totals
  are equal may be ordered either way there.
\<close>

fun score_loop ::
  "real \<Rightarrow> int \<Rightarrow> int \<Rightarrow> real \<times> real option \<Rightarrow> FaceBox list \<Rightarrow> real \<times> real option" where
  "score_loop prev_center frame_width frame_area best [] = best"
| "score_loop prev_center frame_width frame_area (best_score, best_center)
     ((x, y, w, h, score) # rest) =
     (let center = of_int x + of_int w / 2;
          area_ratio = of_int (w * h) / of_int frame_area;
          distance_ratio = \<bar>center - prev_center\<bar> / of_int frame_width;
          total = area_ratio - distance_ratio * (2 / 10) + score * (1 / 100)
      in if total > best_score
         then score_loop prev_center frame_width frame_area (total, Some center) rest
         else score_loop prev_center frame_width frame_area (best_score, best_center) rest)"

definition pick_face_center ::
  "FaceBox list \<Rightarrow> real option \<Rightarrow> int \<Rightarrow> int \<Rightarrow> int \<Rightarrow> error + int option" where
  "pick_face_center faces prev_center frame_width frame_height target_width =
     (if faces = [] then Inr None
      else
        let faces_sorted = sort_by_area_desc faces;
            top_area = face_area (hd faces_sorted);
            group = filter (\<lambda>face. of_int (face_area face) \<ge>
                               of_int top_area * GROUP_FACE_AREA_RATIO) faces_sorted;
            min_x = py_min (map face_x group);
            max_x = py_max (map face_right group);
            span = max_x - min_x
        in if length faces_sorted > 1 \<and> length group \<ge> 2 \<and>
              of_int span \<le> of_int target_width * GROUP_MAX_SPAN_RATIO
           then Inr (Some (py_int (of_int (min_x + max_x) / 2)))
           else case prev_center of
             None \<Rightarrow>
               (case hd faces_sorted of (x, y, w, h, score) \<Rightarrow>
                  Inr (Some (py_int (of_int x + of_int w / 2))))
           | Some prev \<Rightarrow>
               (let frame_area = frame_width * frame_height
                in if frame_area = 0 \<or> frame_width = 0 then Inl ZeroDivisionError
                   else (case snd (score_loop prev frame_width frame_area
                                     (- 1000000000, None) faces_sorted) of
                           None \<Rightarrow> Inr None
                         | Some best_center \<Rightarrow> Inr (Some (py_int best_center)))))"

text \<open>A box that lies inside the frame, with positive width and height.\<close>

definition face_in_frame :: "int \<Rightarrow> int \<Rightarrow> FaceBox \<Rightarrow> bool" where
  "face_in_frame frame_width frame_height face =
     (case face of (x, y, w, h, score) \<Rightarrow>
        0 \<le> x \<and> 0 \<le> y \<and> 1 \<le> w \<and> 1 \<le> h \<and>
        x + w \<le> frame_width \<and> y + h \<le> frame_height)"

text \<open>
  A box of non-negative size and score whose horizontal center \<open>x + w / 2\<close> lies within
  \<open>10^9\<close> frame widths of the left edge of the frame. Every box inside the frame is one,
  and so is a box that pokes out of it.
\<close>

definition face_near_frame :: "int \<Rightarrow> FaceBox \<Rightarrow> bool" where
  "face_near_frame frame_width face =
     (case face of (x, y, w, h, score) \<Rightarrow>
        0 \<le> w \<and> 0 \<le> h \<and> 0 \<le> score \<and> \<bar>2 * x + w\<bar> \<le> 2000000000 * frame_width)"

subsection \<open>What a planning pass leaves behind\<close>

text \<open>
  A pass is observed through the planner state after each frame's update, the sizes of
  the frames written to the encoder, the number of detector invocations, and the
  exception that ended it, if any.
\<close>

record 's pass =
  states :: "'s list"
  written :: "(int \<times> int) list"
  detector_calls :: nat
  raised :: "error option"

definition failed :: "error \<Rightarrow> 's pass" where
  "failed e = \<lparr>states = [], written = [], detector_calls = 0, raised = Some e\<rparr>"

text \<open>
  The shape of \<open>frame[:rows, x : x + cols]\<close> for a frame of the given size and
  \<open>x \<ge> 0\<close>, and the final resize to the exact target size.
\<close>

definition slice_size :: "int \<Rightarrow> int \<Rightarrow> int \<Rightarrow> int \<Rightarrow> int \<Rightarrow> int \<times> int" where
  "slice_size width height x cols rows =
     (max 0 (min (x + cols) width - min x width), max 0 (min rows height))"

definition ensure_exact :: "int \<Rightarrow> int \<Rightarrow> int \<times> int \<Rightarrow> error + int \<times> int" where
  "ensure_exact target_width target_height shape =
     (if fst shape \<noteq> target_width \<or> snd shape \<noteq> target_height
      then (if fst shape \<le> 0 \<or> snd shape \<le> 0 then Inl ResizeError
            else Inr (target_width, target_height))
      else Inr shape)"

subsection \<open>Face-tracking planner\<close>

record face_config =
  fc_width :: int
  fc_height :: int
  fc_target_width :: int
  fc_target_height :: int
  fc_update_interval :: int
  fc_smoothing :: real
  fc_missing_threshold :: int

record face_state =
  smoothed_center :: real
  target_center :: real
  missing_frames :: int
  frame_idx :: int

text \<open>
  Lines 311-314; \<open>fps\<close> is what \<open>resolve_fps\<close> returned, a positive number, so
  \<open>5 / fps\<close> does not divide by zero.
\<close>

definition face_config_of :: "int \<Rightarrow> int \<Rightarrow> int \<Rightarrow> int \<Rightarrow> real \<Rightarrow> face_config" where
  "face_config_of width height target_width target_height fps =
     \<lparr>fc_width = width, fc_height = height,
      fc_target_width = target_width, fc_target_height = target_height,
      fc_update_interval = max 1 (py_int (fps * (1 / 2))),
      fc_smoothing = min (3 / 10) (max (5 / 100) (5 / fps)),
      fc_missing_threshold = py_int (fps * MISSING_FACE_SECONDS)\<rparr>"

definition face_initial :: "int \<Rightarrow> face_state" where
  "face_initial width =
     \<lparr>smoothed_center = of_int width / 2, target_center = of_int width / 2,
      missing_frames = 0, frame_idx = 0\<rparr>"

text \<open>Lines 325-336: the detection update, at every \<open>update_interval\<close>-th frame.\<close>

definition is_update_frame :: "face_config \<Rightarrow> face_state \<Rightarrow> bool" where
  "is_update_frame cfg st = (frame_idx st mod fc_update_interval cfg = 0)"

definition face_detect_update ::
  "face_config \<Rightarrow> face_state \<Rightarrow> FaceBox list \<Rightarrow> error + face_state" where
  "face_detect_update cfg st detected =
     (let faces = normalize_faces detected (fc_width cfg) (fc_height cfg)
      in case pick_face_center faces (Some (smoothed_center st)) (fc_width cfg) (fc_height cfg)
                (fc_target_width cfg) of
           Inl e \<Rightarrow> Inl e
         | Inr (Some center) \<Rightarrow> Inr (st\<lparr>target_center := of_int center, missing_frames := 0\<rparr>)
         | Inr None \<Rightarrow>
             (let missing = missing_frames st + fc_update_interval cfg
              in Inr (st\<lparr>missing_frames := missing,
                         target_center :=
                           (if missing \<ge> fc_missing_threshold cfg
                            then of_int (fc_width cfg) / 2 else target_center st)\<rparr>)))"

text \<open>Lines 338-342: clamp the target, smooth, and derive the crop offset.\<close>

definition face_smooth :: "face_config \<Rightarrow> face_state \<Rightarrow> face_state \<times> int" where
  "face_smooth cfg st =
     (let half_width = of_int (fc_target_width cfg) / 2;
          target = clamp (target_center st) half_width (of_int (fc_width cfg) - half_width);
          smoothed = smoothed_center st + (target - smoothed_center st) * fc_smoothing cfg;
          crop_x = py_round (smoothed - half_width);
          crop_x = clamp crop_x 0 (fc_width cfg - fc_target_width cfg)
      in (st\<lparr>target_center := target, smoothed_center := smoothed\<rparr>, crop_x))"

text \<open>One iteration of the tracking loop up to the state it leaves (lines 325-340).\<close>

definition face_step ::
  "face_config \<Rightarrow> ('f \<Rightarrow> FaceBox list) \<Rightarrow> face_state \<Rightarrow> 'f \<Rightarrow> error + face_state \<times> int" where
  "face_step cfg detect st frame =
     (if is_update_frame cfg st
      then (case face_detect_update cfg st (detect frame) of
              Inl e \<Rightarrow> Inl e
            | Inr st' \<Rightarrow> Inr (face_smooth cfg st'))
      else Inr (face_smooth cfg st))"

fun face_loop ::
  "face_config \<Rightarrow> ('f \<Rightarrow> FaceBox list) \<Rightarrow> sink \<Rightarrow> nat \<Rightarrow> face_state \<Rightarrow> 'f list
     \<Rightarrow> face_state pass" where
  "face_loop cfg detect snk frames_written st [] =
     \<lparr>states = [], written = [], detector_calls = 0, raised = None\<rparr>"
| "face_loop cfg detect snk frames_written st (frame # rest) =
     (let calls = (if is_update_frame cfg st then 1 else 0)
      in case face_step cfg detect st frame of
           Inl e \<Rightarrow> \<lparr>states = [], written = [], detector_calls = calls, raised = Some e\<rparr>
         | Inr (st', crop_x) \<Rightarrow>
             (case ensure_exact (fc_target_width cfg) (fc_target_height cfg)
                     (slice_size (fc_width cfg) (fc_height cfg) crop_x
                        (fc_target_width cfg) (fc_target_height cfg)) of
                Inl e \<Rightarrow>
                  \<lparr>states = [st'], written = [], detector_calls = calls, raised = Some e\<rparr>
              | Inr shape \<Rightarrow>
                  if \<not> pipe_accepts snk frames_written
                  then \<lparr>states = [st'], written = [], detector_calls = calls,
                        raised = Some (FFmpegPipeBroke frames_written)\<rparr>
                  else (let r = face_loop cfg detect snk (Suc frames_written)
                                  (st'\<lparr>frame_idx := frame_idx st' + 1\<rparr>) rest
                        in \<lparr>states = st' # states r, written = shape # written r,
                            detector_calls = calls + detector_calls r,
                            raised = raised r\<rparr>)))"

text \<open>Lines 293-308: the passthrough loop, taken when \<open>width <= target_width\<close>.\<close>

fun passthrough_loop ::
  "int \<Rightarrow> int \<Rightarrow> sink \<Rightarrow> nat \<Rightarrow> 'f list \<Rightarrow> (int \<times> int) list \<times> error option" where
  "passthrough_loop target_width target_height snk frames_written [] = ([], None)"
| "passthrough_loop target_width target_height snk frames_written (frame # rest) =
     (if \<not> pipe_accepts snk frames_written then ([], Some (FFmpegPipeBroke frames_written))
      else (case passthrough_loop target_width target_height snk (Suc frames_written) rest of
              (sizes, e) \<Rightarrow> ((target_width, target_height) # sizes, e)))"

definition crop_face_tracking ::
  "('f \<Rightarrow> FaceBox list) \<Rightarrow> sink \<Rightarrow> 'f video \<Rightarrow> face_state pass" where
  "crop_face_tracking detect snk cap =
     (if \<not> is_opened cap then failed UnableToOpenFace
      else case face_geometry (cap_width cap) (cap_height cap) of
        Inl e \<Rightarrow> failed e
      | Inr (target_width, target_height) \<Rightarrow>
          if cap_width cap \<le> target_width
          then (case passthrough_loop target_width target_height snk 0 (cap_frames cap) of
                  (sizes, Some e) \<Rightarrow>
                    \<lparr>states = [], written = sizes, detector_calls = 0, raised = Some e\<rparr>
                | (sizes, None) \<Rightarrow>
                    \<lparr>states = [], written = sizes, detector_calls = 0,
                     raised = (if exit_code snk \<noteq> 0 then Some (FFmpegExited (exit_code snk))
                               else None)\<rparr>)
          else (let cfg = face_config_of (cap_width cap) (cap_height cap)
                            target_width target_height (resolve_fps cap);
                    r = face_loop cfg detect snk 0 (face_initial (cap_width cap)) (cap_frames cap)
                in if exit_code snk \<noteq> 0
                   then r\<lparr>raised := Some (FFmpegExited (exit_code snk))\<rparr>
                   else r))"

text \<open>Both centers of a planner state lie in the interval the crop window allows.\<close>

definition centers_in_range :: "face_config \<Rightarrow> face_state \<Rightarrow> bool" where
  "centers_in_range cfg st =
     (let half_width = real_of_int (fc_target_width cfg) / 2;
          upper = real_of_int (fc_width cfg) - half_width
      in half_width \<le> target_center st \<and> target_center st \<le> upper \<and>
         half_width \<le> smoothed_center st \<and> smoothed_center st \<le> upper)"

text \<open>\<open>ceil_div j u\<close> is \<open>j / u\<close> rounded up, for \<open>u > 0\<close>: the number of multiples of \<open>u\<close>
  among the frame indices below \<open>j\<close>, that is the number of detection updates before
  frame \<open>j\<close>, and the least number of steps of \<open>u\<close> that reach \<open>j\<close>.\<close>

definition ceil_div :: "int \<Rightarrow> int \<Rightarrow> int" where
  "ceil_div j u = (j + u - 1) div u"

subsection \<open>Motion-tracking (screen) planner\<close>

text \<open>
  Lines 391-398: the size the source is scaled to, so that 0.67 of its width fills the
  target width, reduced when the scaled height would exceed the target height. The
  scale is an exact quotient here; in the code it is rounded before the multiplication,
  so that a product that is an integer here may be truncated to one less there.
\<close>

definition screen_scaled_size :: "int \<Rightarrow> int \<Rightarrow> int \<Rightarrow> int \<Rightarrow> error + int \<times> int" where
  "screen_scaled_size width height target_width target_height =
     (let target_display_width = py_int (of_int width * (67 / 100))
      in if target_display_width = 0 then Inl ZeroDivisionError
         else
           let scale = of_int target_width / of_int target_display_width;
               scaled_width = py_int (of_int width * scale);
               scaled_height = py_int (of_int height * scale)
           in if scaled_height > target_height
              then (if height = 0 then Inl ZeroDivisionError
                    else let scale = of_int target_height / of_int height
                         in Inr (py_int (of_int width * scale), py_int (of_int height * scale)))
              else Inr (scaled_width, scaled_height))"

text \<open>
  A dense flow field is a list of rows of \<open>(dx, dy)\<close>; by the estimator's contract it has
  the shape of the scaled frame, \<open>scaled_height\<close> rows of \<open>scaled_width\<close> entries.
\<close>

type_synonym flow_field = "(real \<times> real) list list"

fun magnitude :: "real \<times> real \<Rightarrow> real" where
  "magnitude (dx, dy) = sqrt (dx ^ 2 + dy ^ 2)"

text \<open>\<open>magnitude * significant\<close>, with \<open>significant = magnitude > 2.0\<close>.\<close>

definition masked :: "real \<Rightarrow> real" where
  "masked m = (if 2 < m then m else 0)"

text \<open>\<open>np.sum(magnitude * significant, axis=0)\<close>: the column sums.\<close>

definition col_motion :: "nat \<Rightarrow> real list list \<Rightarrow> real list" where
  "col_motion ncols mag =
     foldr (\<lambda>row acc. map2 (+) (map masked row) acc) mag (replicate ncols 0)"

text \<open>\<open>int(np.average(np.arange(scaled_width), weights=col_motion))\<close>.\<close>

definition motion_centroid :: "real list \<Rightarrow> int" where
  "motion_centroid col =
     py_int (sum_list (map2 (\<lambda>j c. of_nat j * c) [0..<length col] col) / sum_list col)"

record screen_config =
  sc_target_width :: int
  sc_target_height :: int
  sc_scaled_width :: int
  sc_scaled_height :: int
  sc_update_interval :: int
  sc_total_frames :: int

record 'f screen_state =
  smoothed_x :: int
  prev_gray :: "'f option"
  screen_frame_idx :: int

text \<open>
  Lines 450-464: the pan target of a flow field, \<open>None\<close> when the field has no
  significant motion.
\<close>

definition motion_target :: "screen_config \<Rightarrow> flow_field \<Rightarrow> int option" where
  "motion_target cfg flow =
     (let mag = map (map magnitude) flow
      in if list_ex (list_ex (\<lambda>m. 2 < m)) mag
         then (let col = col_motion (nat (sc_scaled_width cfg)) mag
               in if sum_list col > 0
                  then (let motion_x = motion_centroid col
                        in Some (max 0 (min (motion_x - sc_target_width cfg div 2)
                                          (sc_scaled_width cfg - sc_target_width cfg))))
                  else None)
         else None)"

text \<open>Line 465: \<open>smoothed_x = int(0.9 * smoothed_x + 0.1 * target_x)\<close>.\<close>

definition smooth_pan :: "int \<Rightarrow> int \<Rightarrow> int" where
  "smooth_pan smoothed target_x = py_int (9 / 10 * of_int smoothed + 1 / 10 * of_int target_x)"

text \<open>Lines 444-466: the motion update, at every \<open>update_interval\<close>-th frame.\<close>

definition screen_step ::
  "screen_config \<Rightarrow> ('f \<Rightarrow> 'f \<Rightarrow> flow_field) \<Rightarrow> 'f screen_state \<Rightarrow> 'f \<Rightarrow> 'f screen_state" where
  "screen_step cfg estimate st curr_gray =
     (if screen_frame_idx st mod sc_update_interval cfg = 0
      then (let smoothed =
                  (case prev_gray st of
                     None \<Rightarrow> smoothed_x st
                   | Some prev \<Rightarrow>
                       (case motion_target cfg (estimate prev curr_gray) of
                          None \<Rightarrow> smoothed_x st
                        | Some target_x \<Rightarrow> smooth_pan (smoothed_x st) target_x))
            in st\<lparr>smoothed_x := smoothed, prev_gray := Some curr_gray\<rparr>)
      else st)"

text \<open>Lines 468-482: crop, vertical fit and final resize; the size of the frame written.\<close>

definition screen_render :: "screen_config \<Rightarrow> int \<Rightarrow> error + int \<times> int" where
  "screen_render cfg smoothed =
     (let crop_x = max 0 (min smoothed (sc_scaled_width cfg - sc_target_width cfg));
          cropped = slice_size (sc_scaled_width cfg) (sc_scaled_height cfg) crop_x
                      (sc_target_width cfg) (sc_scaled_height cfg)
      in if sc_scaled_height cfg < sc_target_height cfg
         then (if fst cropped = sc_target_width cfg \<or> fst cropped = 1
               then Inr (sc_target_width cfg, sc_target_height cfg)
               else Inl BroadcastError)
         else if sc_scaled_height cfg > sc_target_height cfg
         then ensure_exact (sc_target_width cfg) (sc_target_height cfg)
                (fst cropped, sc_target_height cfg)
         else ensure_exact (sc_target_width cfg) (sc_target_height cfg) cropped)"

fun screen_loop ::
  "screen_config \<Rightarrow> ('f \<Rightarrow> 'f \<Rightarrow> flow_field) \<Rightarrow> sink \<Rightarrow> nat \<Rightarrow> 'f screen_state \<Rightarrow> 'f list
     \<Rightarrow> 'f screen_state pass" where
  "screen_loop cfg estimate snk frames_written st [] =
     \<lparr>states = [], written = [], detector_calls = 0, raised = None\<rparr>"
| "screen_loop cfg estimate snk frames_written st (frame # rest) =
     (if sc_scaled_width cfg \<le> 0 \<or> sc_scaled_height cfg \<le> 0
      then \<lparr>states = [], written = [], detector_calls = 0, raised = Some ResizeError\<rparr>
      else
        let st' = screen_step cfg estimate st frame
        in case screen_render cfg (smoothed_x st') of
             Inl e \<Rightarrow> \<lparr>states = [st'], written = [], detector_calls = 0, raised = Some e\<rparr>
           | Inr shape \<Rightarrow>
               if \<not> pipe_accepts snk frames_written
               then \<lparr>states = [st'], written = [], detector_calls = 0,
                     raised = Some (FFmpegPipeBroke frames_written)\<rparr>
               else if sc_total_frames cfg \<noteq> 0 \<and>
                       screen_frame_idx st' + 1 \<ge> sc_total_frames cfg
               then \<lparr>states = [st'], written = [shape], detector_calls = 0, raised = None\<rparr>
               else (let r = screen_loop cfg estimate snk (Suc frames_written)
                               (st'\<lparr>screen_frame_idx := screen_frame_idx st' + 1\<rparr>) rest
                     in \<lparr>states = st' # states r, written = shape # written r,
                         detector_calls = 0, raised = raised r\<rparr>))"

text \<open>Line 429: \<open>update_interval = max(1, int(fps))\<close>.\<close>

definition screen_update_interval :: "real \<Rightarrow> int" where
  "screen_update_interval fps = max 1 (py_int fps)"

definition screen_initial :: "'f screen_state" where
  "screen_initial = \<lparr>smoothed_x = 0, prev_gray = None, screen_frame_idx = 0\<rparr>"

definition crop_screen_tracking ::
  "('f \<Rightarrow> 'f \<Rightarrow> flow_field) \<Rightarrow> sink \<Rightarrow> 'f video \<Rightarrow> 'f screen_state pass" where
  "crop_screen_tracking estimate snk cap =
     (if \<not> is_opened cap then failed UnableToOpenScreen
      else case screen_geometry (cap_width cap) (cap_height cap) of
        Inl e \<Rightarrow> failed e
      | Inr (target_width, target_height) \<Rightarrow>
          (case screen_scaled_size (cap_width cap) (cap_height cap) target_width target_height of
             Inl e \<Rightarrow> failed e
           | Inr (scaled_width, scaled_height) \<Rightarrow>
               (let cfg = \<lparr>sc_target_width = target_width, sc_target_height = target_height,
                           sc_scaled_width = scaled_width, sc_scaled_height = scaled_height,
                           sc_update_interval = screen_update_interval (resolve_fps cap),
                           sc_total_frames = cap_frame_count cap\<rparr>;
                    r = screen_loop cfg estimate snk 0 screen_initial (cap_frames cap)
                in if raised r = None \<and> exit_code snk \<noteq> 0
                   then r\<lparr>raised := Some (FFmpegExited (exit_code snk))\<rparr>
                   else r)))"

subsection \<open>Mode selection and entry point\<close>

text \<open>
  \<open>np.linspace(0, stop, num, dtype=int)\<close>: evenly spaced, truncated, the last one
  \<open>stop\<close>. The step is an exact quotient here; in the code it is rounded, so that an
  index that is an integer here may be truncated to one less there.
\<close>

definition linspace_int :: "int \<Rightarrow> nat \<Rightarrow> int list" where
  "linspace_int stop num =
     (if num = 1 then [0]
      else map (\<lambda>i. if i = num - 1 then stop
                     else py_int (of_nat i * (of_int stop / of_nat (num - 1)))) [0..<num])"

text \<open>\<open>cap.set(CAP_PROP_POS_FRAMES, idx)\<close> followed by \<open>cap.read()\<close>.\<close>

definition read_at :: "'f list \<Rightarrow> int \<Rightarrow> 'f option" where
  "read_at fs idx = (if 0 \<le> idx \<and> nat idx < length fs then Some (fs ! nat idx) else None)"

text \<open>
  The center of the largest usable face of a frame, \<open>None\<close> when the frame has none
  (lines 207-212 and 221-225).
\<close>

definition sample_center :: "('f \<Rightarrow> FaceBox list) \<Rightarrow> int \<Rightarrow> int \<Rightarrow> 'f \<Rightarrow> int option" where
  "sample_center detect width height frame =
     (case sort_by_area_desc (normalize_faces (detect frame) width height) of
        [] \<Rightarrow> None
      | (x, y, w, h, score) # others \<Rightarrow> Some (py_int (of_int x + of_int w / 2)))"

text \<open>Lines 202-214: the loop over the sampled frame indices.\<close>

fun sample_loop ::
  "('f \<Rightarrow> FaceBox list) \<Rightarrow> 'f video \<Rightarrow> nat \<Rightarrow> int list \<Rightarrow> int list \<Rightarrow> int list" where
  "sample_loop detect cap max_samples centers [] = centers"
| "sample_loop detect cap max_samples centers (idx # rest) =
     (case read_at (cap_frames cap) idx of
        None \<Rightarrow> sample_loop detect cap max_samples centers rest
      | Some frame \<Rightarrow>
          (case sample_center detect (cap_width cap) (cap_height cap) frame of
             None \<Rightarrow> sample_loop detect cap max_samples centers rest
           | Some center \<Rightarrow>
               if length (centers @ [center]) \<ge> max_samples then centers @ [center]
               else sample_loop detect cap max_samples (centers @ [center]) rest))"

text \<open>Lines 216-226: sequential reading when the frame count is unknown.\<close>

fun sequential_loop ::
  "('f \<Rightarrow> FaceBox list) \<Rightarrow> 'f video \<Rightarrow> nat \<Rightarrow> nat \<Rightarrow> int list \<Rightarrow> 'f list \<Rightarrow> int list" where
  "sequential_loop detect cap max_samples frame_count centers [] = centers"
| "sequential_loop detect cap max_samples frame_count centers (frame # rest) =
     (if frame_count < max_samples
      then (case sample_center detect (cap_width cap) (cap_height cap) frame of
              None \<Rightarrow> sequential_loop detect cap max_samples (Suc frame_count) centers rest
            | Some center \<Rightarrow>
                sequential_loop detect cap max_samples (Suc frame_count) (centers @ [center]) rest)
      else centers)"

definition detect_face_centers :: "('f \<Rightarrow> FaceBox list) \<Rightarrow> 'f video \<Rightarrow> nat \<Rightarrow> int list" where
  "detect_face_centers detect cap max_samples =
     (if \<not> is_opened cap then []
      else
        let total_frames = cap_frame_count cap
        in if total_frames > 0
           then (let sample_count = min max_samples (nat total_frames)
                 in sample_loop detect cap max_samples []
                      (linspace_int (total_frames - 1) sample_count))
           else sequential_loop detect cap max_samples 0 [] (cap_frames cap))"

datatype mode = Auto | Face | Screen

text \<open>
  \<open>main\<close>: the mode that runs, the exception reported as \<open>crop_failed\<close>, and the exit
  status.
\<close>

definition main ::
  "('f \<Rightarrow> FaceBox list) \<Rightarrow> ('f \<Rightarrow> 'f \<Rightarrow> flow_field) \<Rightarrow> sink \<Rightarrow> mode \<Rightarrow> 'f video
     \<Rightarrow> mode \<times> error option \<times> int" where
  "main detect estimate snk requested cap =
     (let mode = (if requested = Auto
                  then (if detect_face_centers detect cap 12 \<noteq> [] then Face else Screen)
                  else requested);
          failure = (if mode = Face then raised (crop_face_tracking detect snk cap)
                     else raised (crop_screen_tracking estimate snk cap))
      in (mode, failure, if failure = None then 0 else 1))"


section \<open>Verified properties\<close>

subsection \<open>Number conversions\<close>

lemma py_int_of_int [simp]: "py_int (of_int k) = k"
  by (simp add: py_int_def)

lemma py_int_div: "0 \<le> k \<Longrightarrow> 0 < l \<Longrightarrow> py_int (of_int k / of_int l) = k div l"
  by (simp add: py_int_def floor_divide_of_int_eq)

lemma nine_sixteenths: "0 \<le> h \<Longrightarrow> py_int (of_int (h * 9) / 16) = (h * 9) div 16"
  using py_int_div [of "h * 9" 16] by simp

lemma py_int_half:
  "py_int (of_int s / 2) = (if 0 \<le> s then s div 2 else - ((- s) div 2))"
proof (cases "0 \<le> s")
  case True
  then show ?thesis
    using floor_divide_of_int_eq [of s 2, where ?'a = real] by (simp add: py_int_def)
next
  case False
  then have neg: "s < 0" by simp
  have "\<lceil>of_int s / (2::real)\<rceil> = - \<lfloor>of_int (- s) / (2::real)\<rfloor>"
    by (simp add: ceiling_def)
  also have "\<dots> = - ((- s) div 2)"
    using floor_divide_of_int_eq [of "- s" 2, where ?'a = real] by simp
  finally show ?thesis using neg by (simp add: py_int_def)
qed

subsection \<open>Target geometry\<close>

text \<open>
  The face planner's target size: 9:16 of the height, capped at the source width, then
  both rounded down to even; a size below 2 is rejected.
\<close>

lemma face_geometry_ok:
  assumes "2 \<le> width" "2 \<le> height"
  shows "case face_geometry width height of
           Inl e \<Rightarrow> (\<exists>a b. e = InvalidCropSize a b)
         | Inr (tw, th) \<Rightarrow>
             tw = (let c = min ((height * 9) div 16) width in c - c mod 2) \<and>
             th = height - height mod 2 \<and> even tw \<and> even th \<and> 2 \<le> tw \<and> 2 \<le> th \<and>
             tw \<le> width \<and> th \<le> height"
proof -
  have h: "py_int (of_int (height * 9) / 16) = (height * 9) div 16"
    using assms by (intro nine_sixteenths) simp
  show ?thesis
    using assms
    unfolding face_geometry_def ensure_valid_dimensions_def face_target_size_def Let_def h
    by (auto simp: min_def split: if_splits)
qed

text \<open>
  The screen planner's target size: the same without the cap, so only the height is
  bounded by the source.
\<close>

lemma screen_geometry_ok:
  assumes "2 \<le> width" "2 \<le> height"
  shows "case screen_geometry width height of
           Inl e \<Rightarrow> (\<exists>a b. e = InvalidCropSize a b)
         | Inr (tw, th) \<Rightarrow>
             tw = (let c = (height * 9) div 16 in c - c mod 2) \<and>
             th = height - height mod 2 \<and> even tw \<and> even th \<and> 2 \<le> tw \<and> 2 \<le> th \<and>
             th \<le> height"
proof -
  have h: "py_int (of_int (height * 9) / 16) = (height * 9) div 16"
    using assms by (intro nine_sixteenths) simp
  show ?thesis
    using assms
    unfolding screen_geometry_def ensure_valid_dimensions_def screen_target_size_def Let_def h
    by (auto split: if_splits)
qed

text \<open>
  C1. For every source size with width and height at least 2, both planners are claimed
  to compute a target width of \<open>floor(height * 9 / 16)\<close> capped at the source width and
  rounded down to even, and a target height rounded down to even, both even, at least
  2 and no larger than the source. \<open>crop_face_tracking\<close> does (\<open>face_geometry_ok\<close>);
  \<open>crop_screen_tracking\<close> leaves the cap out: for a 720x1920 source it plans a
  1080x1920 target, wider than the source, where the face planner plans 720x1920.
\<close>

theorem screen_target_exceeds_source:
  "screen_geometry 720 1920 = Inr (1080, 1920) \<and> (720::int) < 1080 \<and>
   face_geometry 720 1920 = Inr (720, 1920)"
  by (simp add: screen_geometry_def face_geometry_def ensure_valid_dimensions_def
      screen_target_size_def face_target_size_def py_int_def)

subsection \<open>Normalising detections\<close>

lemma clamp_box_in_frame:
  "1 \<le> fw \<Longrightarrow> 1 \<le> fh \<Longrightarrow> face_in_frame fw fh (clamp_box fw fh face)"
  by (cases face) (auto simp: face_in_frame_def clamp_def Let_def)

lemma clamp_box_score [simp]: "face_score (clamp_box fw fh face) = face_score face"
  by (cases face) (simp add: Let_def)

lemma normalize_loop_eq:
  "normalize_loop min_area fw fh acc faces =
     acc @ map (clamp_box fw fh)
       (filter (\<lambda>face. MIN_FACE_SCORE \<le> face_score face \<and>
                         min_area \<le> of_int (face_area (clamp_box fw fh face))) faces)"
  by (induction faces arbitrary: acc) (auto simp: Let_def)

lemma normalize_faces_eq:
  "normalize_faces faces fw fh =
     map (clamp_box fw fh)
       (filter (\<lambda>face. MIN_FACE_SCORE \<le> face_score face \<and>
                  of_int (fw * fh) * MIN_FACE_AREA_RATIO \<le> of_int (face_area (clamp_box fw fh face)))
          faces)"
  by (simp add: normalize_faces_def normalize_loop_eq)

lemma normalize_faces_example:
  "normalize_faces [(- 5, 10, 50, 40, 9 / 10), (10, 10, 3000, 40, 4 / 10),
                    (90, 95, 30, 30, 1), (10, 10, 2, 2, 1)] 100 100
     = [(0, 10, 50, 40, 9 / 10), (90, 95, 10, 5, 1)]"
  by (simp add: normalize_faces_def MIN_FACE_SCORE_def MIN_FACE_AREA_RATIO_def clamp_def Let_def)

text \<open>
  C5. For every list of raw boxes, whatever their coordinates, and every frame of
  positive size, \<open>normalize_faces\<close> returns, in the order of the input, exactly the
  clamped boxes of score at least 0.5 whose clamped area is at least 0.001 of the frame
  area: it is a subsequence of the clamped input, every returned box has score at least
  0.5, lies inside \<open>[0, frame_width) x [0, frame_height)\<close> and has that area, and every
  other box is dropped. Being a function of its arguments, the result is determined by
  them and nothing else is changed.
\<close>

theorem normalize_faces_spec:
  assumes "1 \<le> fw" "1 \<le> fh"
  shows "normalize_faces faces fw fh =
           map (clamp_box fw fh)
             (filter (\<lambda>face. 1 / 2 \<le> face_score face \<and>
                        real_of_int (fw * fh) / 1000 \<le> real_of_int (face_area (clamp_box fw fh face)))
                faces) \<and>
         subseq (normalize_faces faces fw fh) (map (clamp_box fw fh) faces) \<and>
         (\<forall>face \<in> set (normalize_faces faces fw fh).
            1 / 2 \<le> face_score face \<and> face_in_frame fw fh face \<and>
            real_of_int (fw * fh) / 1000 \<le> real_of_int (face_area face))"
proof -
  let ?keep = "\<lambda>face. 1 / 2 \<le> face_score face \<and>
                  of_int (fw * fh) / 1000 \<le> (of_int (face_area (clamp_box fw fh face)) :: real)"
  have eq: "normalize_faces faces fw fh = map (clamp_box fw fh) (filter ?keep faces)"
    by (simp add: normalize_faces_eq MIN_FACE_SCORE_def MIN_FACE_AREA_RATIO_def)
  have sub: "subseq (map (clamp_box fw fh) (filter ?keep faces)) (map (clamp_box fw fh) faces)"
    by (intro subseq_map subseq_filter_left)
  have inside: "\<forall>face \<in> set (map (clamp_box fw fh) (filter ?keep faces)).
            1 / 2 \<le> face_score face \<and> face_in_frame fw fh face \<and>
            of_int (fw * fh) / 1000 \<le> (of_int (face_area face) :: real)"
    using assms by (auto simp: clamp_box_in_frame)
  show ?thesis using sub inside unfolding eq by blast
qed

theorem normalize_faces_spec_witness:
  "(1::int) \<le> 100 \<and>
   normalize_faces [(- 5, 10, 50, 40, 9 / 10), (10, 10, 3000, 40, 4 / 10),
                    (90, 95, 30, 30, 1), (10, 10, 2, 2, 1)] 100 100
     = [(0, 10, 50, 40, 9 / 10), (90, 95, 10, 5, 1)] \<and>
   face_in_frame 100 100 (0, 10, 50, 40, 9 / 10) \<and> face_in_frame 100 100 (90, 95, 10, 5, 1) \<and>
   subseq [(0, 10, 50, 40, 9 / 10), (90, 95, 10, 5, 1)]
     (map (clamp_box 100 100) [(- 5, 10, 50, 40, 9 / 10), (10, 10, 3000, 40, 4 / 10),
                    (90, 95, 30, 30, 1), (10, 10, 2, 2, 1)])"
proof -
  have h: "(1::int) \<le> 100" by simp
  note t = normalize_faces_spec [OF h h, of "[(- 5, 10, 50, 40, 9 / 10), (10, 10, 3000, 40, 4 / 10),
                    (90, 95, 30, 30, 1), (10, 10, 2, 2, 1)]", unfolded normalize_faces_example]
  have "face_in_frame 100 100 (0, 10, 50, 40, 9 / 10) \<and> face_in_frame 100 100 (90, 95, 10, 5, 1)"
    using t by simp
  then show ?thesis using t h unfolding normalize_faces_example by blast
qed

subsection \<open>Picking the face center\<close>



lemma face_in_frame_near:
  "face_in_frame fw fh face \<Longrightarrow> 0 \<le> face_score face \<Longrightarrow> face_near_frame fw face"
  by (cases face) (auto simp: face_in_frame_def face_near_frame_def)


lemma sort_by_area_desc_set [simp]: "set (sort_by_area_desc faces) = set faces"
  by (simp add: sort_by_area_desc_def)

lemma sort_by_area_desc_Nil [simp]: "(sort_by_area_desc faces = []) = (faces = [])"
  by (metis sort_by_area_desc_set set_empty)




lemma sort_pair_equal_area:
  "face_area b1 = face_area b2 \<Longrightarrow> sort_by_area_desc [b1, b2] = [b1, b2]"
  by (simp add: sort_by_area_desc_def)

text \<open>
  C4, as claimed: two boxes of equal area within the span limit give exactly the
  midpoint of their combined span. The code returns \<open>int((min_x + max_x) / 2)\<close>: for
  boxes spanning 100 to 401 the midpoint is 250.5 and the result is 250.
\<close>

theorem pick_face_center_midpoint_counterexample:
  "pick_face_center [(100, 100, 101, 100, 9 / 10), (301, 100, 100, 101, 9 / 10)]
     (Some 960) 1920 1080 606 = Inr (Some 250) \<and>
   real_of_int 250 \<noteq> (real_of_int (min 100 301) + real_of_int (max (100 + 101) (301 + 100))) / 2"
  by (simp add: pick_face_center_def sort_by_area_desc_def Let_def GROUP_MAX_SPAN_RATIO_def
      GROUP_FACE_AREA_RATIO_def py_int_def)

text \<open>
  C4, amended: for every frame size, previous center and pair of face boxes of equal,
  non-negative area whose combined span \<open>max(x + w) - min(x)\<close> is at most 0.9 times the
  target width, \<open>pick_face_center\<close> returns the midpoint \<open>(min_x + max_x) / 2\<close> of the
  span truncated toward zero to an integer (the midpoint itself when \<open>min_x + max_x\<close>
  is even).
\<close>

theorem pick_face_center_pair:
  assumes "face_area b1 = face_area b2" and "0 \<le> face_area b1"
    and "real_of_int (max (face_right b1) (face_right b2) - min (face_x b1) (face_x b2))
           \<le> real_of_int tw * (9 / 10)"
  shows "pick_face_center [b1, b2] prev fw fh tw =
           Inr (Some (let s = min (face_x b1) (face_x b2) + max (face_right b1) (face_right b2)
                      in if 0 \<le> s then s div 2 else - ((- s) div 2)))"
proof -
  have grp: "real_of_int (face_area b2) * GROUP_FACE_AREA_RATIO \<le> real_of_int (face_area b2)"
    using assms(1,2) by (simp add: GROUP_FACE_AREA_RATIO_def)
  have "pick_face_center [b1, b2] prev fw fh tw =
          Inr (Some (py_int (of_int (min (face_x b1) (face_x b2) +
                                     max (face_right b1) (face_right b2)) / 2)))"
    using assms grp
    by (simp add: pick_face_center_def sort_pair_equal_area Let_def GROUP_MAX_SPAN_RATIO_def
        min.commute max.commute del: of_int_add of_int_diff)
  then show ?thesis
    unfolding py_int_half Let_def .
qed

theorem pick_face_center_pair_witness:
  "face_area (100, 100, 101, 100, 9 / 10) = face_area (301, 100, 100, 101, 9 / 10) \<and>
   0 \<le> face_area (100, 100, 101, 100, 9 / 10) \<and>
   pick_face_center [(100, 100, 101, 100, 9 / 10), (301, 100, 100, 101, 9 / 10)]
     (Some 960) 1920 1080 606 = Inr (Some 250)"
  using pick_face_center_pair [of "(100, 100, 101, 100, 9 / 10)" "(301, 100, 100, 101, 9 / 10)"
      606 "Some 960" 1920 1080]
  by simp

subsection \<open>Face-tracking planner\<close>

lemma convex_step:
  fixes s t a lo hi :: real
  assumes "lo \<le> s" "s \<le> hi" "lo \<le> t" "t \<le> hi" "0 \<le> a" "a \<le> 1"
  shows "lo \<le> s + (t - s) * a \<and> s + (t - s) * a \<le> hi"
proof -
  have eq: "s + (t - s) * a = (1 - a) * s + a * t" by algebra
  have "(1 - a) * lo \<le> (1 - a) * s" "a * lo \<le> a * t"
    using assms by (auto intro: mult_left_mono)
  then have lower: "lo \<le> (1 - a) * s + a * t" by (simp add: algebra_simps)
  have "(1 - a) * s \<le> (1 - a) * hi" "a * t \<le> a * hi"
    using assms by (auto intro: mult_left_mono)
  then have upper: "(1 - a) * s + a * t \<le> hi" by (simp add: algebra_simps)
  show ?thesis using lower upper unfolding eq by simp
qed

lemma clamp_bounds:
  fixes v lo hi :: real
  assumes "lo \<le> hi"
  shows "lo \<le> clamp v lo hi \<and> clamp v lo hi \<le> hi"
  using assms by (auto simp: clamp_def)

lemma face_smooth_in_range:
  assumes "fc_target_width cfg \<le> fc_width cfg"
    and "0 \<le> fc_smoothing cfg" "fc_smoothing cfg \<le> 1"
    and "real_of_int (fc_target_width cfg) / 2 \<le> smoothed_center st"
    and "smoothed_center st \<le> real_of_int (fc_width cfg) - real_of_int (fc_target_width cfg) / 2"
  shows "centers_in_range cfg (fst (face_smooth cfg st))"
proof -
  define lo where "lo = real_of_int (fc_target_width cfg) / 2"
  define hi where "hi = real_of_int (fc_width cfg) - lo"
  define t where "t = clamp (target_center st) lo hi"
  have "lo \<le> hi" using assms(1) by (simp add: lo_def hi_def)
  then have t: "lo \<le> t" "t \<le> hi" using clamp_bounds [of lo hi "target_center st"] by (simp_all add: t_def)
  have s: "lo \<le> smoothed_center st" "smoothed_center st \<le> hi"
    using assms(4,5) by (simp_all add: lo_def hi_def)
  from convex_step [OF s t assms(2,3)] t
  show ?thesis
    by (simp add: centers_in_range_def face_smooth_def Let_def lo_def [symmetric] hi_def [symmetric] t_def [symmetric])
qed

lemma face_detect_update_smoothed:
  "face_detect_update cfg st detected = Inr st' \<Longrightarrow> smoothed_center st' = smoothed_center st"
  by (auto simp: face_detect_update_def Let_def split: sum.splits option.splits)

lemma face_step_in_range:
  assumes "fc_target_width cfg \<le> fc_width cfg"
    and "0 \<le> fc_smoothing cfg" "fc_smoothing cfg \<le> 1"
    and "real_of_int (fc_target_width cfg) / 2 \<le> smoothed_center st"
    and "smoothed_center st \<le> real_of_int (fc_width cfg) - real_of_int (fc_target_width cfg) / 2"
    and "face_step cfg detect st frame = Inr (st', crop_x)"
  shows "centers_in_range cfg st'"
proof (cases "is_update_frame cfg st")
  case True
  then obtain st1 where u: "face_detect_update cfg st (detect frame) = Inr st1"
    and s: "face_smooth cfg st1 = (st', crop_x)"
    using assms(6) by (auto simp: face_step_def split: sum.splits)
  have "smoothed_center st1 = smoothed_center st" using u by (rule face_detect_update_smoothed)
  with face_smooth_in_range [OF assms(1-3), of st1] assms(4,5) s show ?thesis by simp
next
  case False
  then have "face_smooth cfg st = (st', crop_x)" using assms(6) by (simp add: face_step_def)
  with face_smooth_in_range [OF assms(1-5)] show ?thesis by simp
qed

lemma face_loop_in_range:
  assumes "fc_target_width cfg \<le> fc_width cfg"
    and "0 \<le> fc_smoothing cfg" "fc_smoothing cfg \<le> 1"
  shows "real_of_int (fc_target_width cfg) / 2 \<le> smoothed_center st \<Longrightarrow>
         smoothed_center st \<le> real_of_int (fc_width cfg) - real_of_int (fc_target_width cfg) / 2 \<Longrightarrow>
         s \<in> set (states (face_loop cfg detect snk n st frames)) \<Longrightarrow> centers_in_range cfg s"
proof (induction frames arbitrary: st n)
  case Nil
  then show ?case by simp
next
  case (Cons frame rest)
  show ?case
  proof (cases "face_step cfg detect st frame")
    case (Inl e)
    with Cons.prems show ?thesis by (simp add: Let_def)
  next
    case (Inr p)
    obtain st' crop_x where p: "p = (st', crop_x)" by (cases p)
    have r: "centers_in_range cfg st'"
      using face_step_in_range [OF assms Cons.prems(1,2)] Inr p by simp
    let ?next = "st'\<lparr>frame_idx := frame_idx st' + 1\<rparr>"
    have nx: "real_of_int (fc_target_width cfg) / 2 \<le> smoothed_center ?next"
      "smoothed_center ?next \<le> real_of_int (fc_width cfg) - real_of_int (fc_target_width cfg) / 2"
      using r by (simp_all add: centers_in_range_def Let_def)
    from Cons.prems(3) Inr p have "s = st' \<or>
        s \<in> set (states (face_loop cfg detect snk (Suc n) ?next rest))"
      by (auto simp: Let_def split: sum.splits if_splits)
    then show ?thesis using r Cons.IH [OF nx] by blast
  qed
qed

text \<open>
  C2. In the face-tracking loop, started from the initial state, with the frame wider
  than the target and a smoothing factor in \<open>[0.05, 0.3]\<close>, the state after every
  frame's update has \<open>target_center\<close> and \<open>smoothed_center\<close> within
  \<open>[target_width / 2, frame_width - target_width / 2]\<close>, whatever the detector returns
  and wherever the pass ends.
\<close>

theorem face_centers_stay_in_range:
  assumes "fc_target_width cfg < fc_width cfg"
    and "5 / 100 \<le> fc_smoothing cfg" and "fc_smoothing cfg \<le> 3 / 10"
  shows "\<forall>st \<in> set (states (face_loop cfg detect snk 0 (face_initial (fc_width cfg)) frames)).
           real_of_int (fc_target_width cfg) / 2 \<le> target_center st \<and>
           target_center st \<le> real_of_int (fc_width cfg) - real_of_int (fc_target_width cfg) / 2 \<and>
           real_of_int (fc_target_width cfg) / 2 \<le> smoothed_center st \<and>
           smoothed_center st \<le> real_of_int (fc_width cfg) - real_of_int (fc_target_width cfg) / 2"
proof
  fix st
  assume st: "st \<in> set (states (face_loop cfg detect snk 0 (face_initial (fc_width cfg)) frames))"
  have a: "fc_target_width cfg \<le> fc_width cfg" "0 \<le> fc_smoothing cfg" "fc_smoothing cfg \<le> 1"
    using assms by simp_all
  have i: "real_of_int (fc_target_width cfg) / 2 \<le> smoothed_center (face_initial (fc_width cfg))"
    "smoothed_center (face_initial (fc_width cfg))
       \<le> real_of_int (fc_width cfg) - real_of_int (fc_target_width cfg) / 2"
    using assms(1) by (simp_all add: face_initial_def)
  from face_loop_in_range [OF a i st]
  show "real_of_int (fc_target_width cfg) / 2 \<le> target_center st \<and>
           target_center st \<le> real_of_int (fc_width cfg) - real_of_int (fc_target_width cfg) / 2 \<and>
           real_of_int (fc_target_width cfg) / 2 \<le> smoothed_center st \<and>
           smoothed_center st \<le> real_of_int (fc_width cfg) - real_of_int (fc_target_width cfg) / 2"
    by (simp add: centers_in_range_def Let_def)
qed

lemma face_loop_example:
  "map (\<lambda>st. (target_center st, smoothed_center st))
     (states (face_loop (face_config_of 1920 1080 606 1080 30)
                 (\<lambda>k::nat. if k = 0 then [(1700, 300, 200, 200, 9 / 10)] else [])
                 \<lparr>pipe_capacity = None, exit_code = 0\<rparr> 0 (face_initial 1920) [0, 1, 2]))
   = [(1617, 2139 / 2), (1617, 4643 / 4), (1617, 29683 / 24)]"
  by code_simp

theorem face_centers_stay_in_range_witness:
  "fc_target_width (face_config_of 1920 1080 606 1080 30)
     < fc_width (face_config_of 1920 1080 606 1080 30) \<and>
   5 / 100 \<le> fc_smoothing (face_config_of 1920 1080 606 1080 30) \<and>
   fc_smoothing (face_config_of 1920 1080 606 1080 30) \<le> 3 / 10 \<and>
   length (states (face_loop (face_config_of 1920 1080 606 1080 30)
                 (\<lambda>k::nat. if k = 0 then [(1700, 300, 200, 200, 9 / 10)] else [])
                 \<lparr>pipe_capacity = None, exit_code = 0\<rparr> 0 (face_initial 1920) [0, 1, 2])) = 3 \<and>
   303 \<le> smoothed_center (states (face_loop (face_config_of 1920 1080 606 1080 30)
                 (\<lambda>k::nat. if k = 0 then [(1700, 300, 200, 200, 9 / 10)] else [])
                 \<lparr>pipe_capacity = None, exit_code = 0\<rparr> 0 (face_initial 1920) [0, 1, 2]) ! 2) \<and>
   target_center (states (face_loop (face_config_of 1920 1080 606 1080 30)
                 (\<lambda>k::nat. if k = 0 then [(1700, 300, 200, 200, 9 / 10)] else [])
                 \<lparr>pipe_capacity = None, exit_code = 0\<rparr> 0 (face_initial 1920) [0, 1, 2]) ! 2) \<le> 1617"
proof -
  define cfg where "cfg = face_config_of 1920 1080 606 1080 30"
  define r where "r = face_loop cfg (\<lambda>k::nat. if k = 0 then [(1700, 300, 200, 200, 9 / 10)] else [])
              \<lparr>pipe_capacity = None, exit_code = 0\<rparr> 0 (face_initial 1920) [0, 1, 2]"
  have w: "fc_width cfg = 1920" "fc_target_width cfg = 606" "fc_smoothing cfg = 1 / 6"
    by (simp_all add: cfg_def face_config_of_def)
  have hyps: "fc_target_width cfg < fc_width cfg" "5 / 100 \<le> fc_smoothing cfg"
    "fc_smoothing cfg \<le> 3 / 10"
    by (simp_all add: w)
  have "map (\<lambda>st. (target_center st, smoothed_center st)) (states r)
          = [(1617, 2139 / 2), (1617, 4643 / 4), (1617, 29683 / 24)]"
    unfolding r_def cfg_def by (rule face_loop_example)
  from arg_cong [OF this, of length] have len: "length (states r) = 3" by simp
  then have mem: "states r ! 2 \<in> set (states r)" by simp
  have "\<forall>st \<in> set (states r).
           real_of_int (fc_target_width cfg) / 2 \<le> target_center st \<and>
           target_center st \<le> real_of_int (fc_width cfg) - real_of_int (fc_target_width cfg) / 2 \<and>
           real_of_int (fc_target_width cfg) / 2 \<le> smoothed_center st \<and>
           smoothed_center st \<le> real_of_int (fc_width cfg) - real_of_int (fc_target_width cfg) / 2"
    unfolding r_def w(1) by (rule face_centers_stay_in_range [OF hyps, unfolded w(1)])
  with mem have "303 \<le> smoothed_center (states r ! 2) \<and> target_center (states r ! 2) \<le> 1617"
    by (simp add: w)
  then show ?thesis
    using hyps len unfolding r_def [symmetric] cfg_def [symmetric] by blast
qed

text \<open>
  The planner itself computes a smoothing factor in \<open>[0.05, 0.3]\<close> and tracks only
  when the frame is wider than the target, so the bounds hold in every pass.
\<close>

lemma smoothing_bounds:
  "5 / 100 \<le> fc_smoothing (face_config_of width height tw th fps) \<and>
   fc_smoothing (face_config_of width height tw th fps) \<le> 3 / 10"
  by (simp add: face_config_of_def)

lemma crop_face_tracking_centers_in_range:
  assumes "face_geometry (cap_width cap) (cap_height cap) = Inr (tw, th)"
    and "st \<in> set (states (crop_face_tracking detect snk cap))"
  shows "centers_in_range
           (face_config_of (cap_width cap) (cap_height cap) tw th (resolve_fps cap)) st"
proof -
  let ?cfg = "face_config_of (cap_width cap) (cap_height cap) tw th (resolve_fps cap)"
  have w: "fc_width ?cfg = cap_width cap" "fc_target_width ?cfg = tw"
    by (simp_all add: face_config_of_def)
  from assms have wide: "tw < cap_width cap"
    and mem: "st \<in> set (states (face_loop ?cfg detect snk 0 (face_initial (cap_width cap))
                                 (cap_frames cap)))"
    by (auto simp: crop_face_tracking_def failed_def Let_def
          split: if_splits prod.splits option.splits)
  have a: "fc_target_width ?cfg \<le> fc_width ?cfg" "0 \<le> fc_smoothing ?cfg"
    "fc_smoothing ?cfg \<le> 1"
    using wide smoothing_bounds [of "cap_width cap" "cap_height cap" tw th "resolve_fps cap"]
    by (simp_all add: w)
  have i: "real_of_int (fc_target_width ?cfg) / 2
             \<le> smoothed_center (face_initial (cap_width cap))"
    "smoothed_center (face_initial (cap_width cap))
       \<le> real_of_int (fc_width ?cfg) - real_of_int (fc_target_width ?cfg) / 2"
    using wide by (simp_all add: w face_initial_def)
  from face_loop_in_range [OF a i mem] show ?thesis .
qed

lemma passthrough_loop_written:
  "fst (passthrough_loop tw th snk n frames) =
     replicate (case pipe_capacity snk of None \<Rightarrow> length frames
                | Some c \<Rightarrow> min (c - n) (length frames)) (tw, th)"
proof (induction frames arbitrary: n)
  case Nil
  then show ?case by (simp split: option.splits)
next
  case (Cons frame rest)
  show ?case
  proof (cases "pipe_accepts snk n")
    case True
    then have s: "case pipe_capacity snk of None \<Rightarrow> True | Some c \<Rightarrow> n < c"
      by (simp add: pipe_accepts_def)
    from True Cons.IH [of "Suc n"] s show ?thesis
      by (auto simp: split_beta min_def Suc_diff_Suc replicate_Suc [symmetric]
          simp del: replicate_Suc split: option.splits prod.splits)
  next
    case False
    then show ?thesis by (auto simp: pipe_accepts_def split: option.splits)
  qed
qed

text \<open>
  C7. Whenever the frame is no wider than the target, \<open>crop_face_tracking\<close> takes the
  passthrough path: the face detector is never invoked, no tracking state is kept, and
  every frame written to the encoder has exactly the size
  \<open>(target_width, target_height)\<close>; all frames are written unless the pipe breaks.
\<close>

theorem passthrough_no_detection:
  assumes "is_opened cap"
    and "face_geometry (cap_width cap) (cap_height cap) = Inr (tw, th)"
    and "cap_width cap \<le> tw"
  shows "detector_calls (crop_face_tracking detect snk cap) = 0 \<and>
         states (crop_face_tracking detect snk cap) = [] \<and>
         written (crop_face_tracking detect snk cap) =
           replicate (case pipe_capacity snk of None \<Rightarrow> length (cap_frames cap)
                      | Some c \<Rightarrow> min c (length (cap_frames cap))) (tw, th)"
proof -
  obtain sizes e where p: "passthrough_loop tw th snk 0 (cap_frames cap) = (sizes, e)"
    by (cases "passthrough_loop tw th snk 0 (cap_frames cap)")
  have "sizes = replicate (case pipe_capacity snk of None \<Rightarrow> length (cap_frames cap)
                      | Some c \<Rightarrow> min c (length (cap_frames cap))) (tw, th)"
    using passthrough_loop_written [of tw th snk 0 "cap_frames cap"] p
    by (cases "pipe_capacity snk") simp_all
  then show ?thesis
    using assms p by (cases e) (simp_all add: crop_face_tracking_def)
qed

lemma passthrough_example:
  "crop_face_tracking (\<lambda>k::nat. [(10, 10, 50, 50, 1)]) \<lparr>pipe_capacity = None, exit_code = 0\<rparr>
     \<lparr>is_opened = True, cap_width = 606, cap_height = 1080, cap_fps = 30, cap_frame_count = 3,
      cap_frames = [0, 1, 2]\<rparr>
   = \<lparr>states = [], written = [(606, 1080), (606, 1080), (606, 1080)], detector_calls = 0,
      raised = None\<rparr>"
  by code_simp

theorem passthrough_no_detection_witness:
  "face_geometry 606 1080 = Inr (606, 1080) \<and> (606::int) \<le> 606 \<and>
   detector_calls (crop_face_tracking (\<lambda>k::nat. [(10, 10, 50, 50, 1)])
     \<lparr>pipe_capacity = None, exit_code = 0\<rparr>
     \<lparr>is_opened = True, cap_width = 606, cap_height = 1080, cap_fps = 30, cap_frame_count = 3,
      cap_frames = [0, 1, 2]\<rparr>) = 0 \<and>
   written (crop_face_tracking (\<lambda>k::nat. [(10, 10, 50, 50, 1)])
     \<lparr>pipe_capacity = None, exit_code = 0\<rparr>
     \<lparr>is_opened = True, cap_width = 606, cap_height = 1080, cap_fps = 30, cap_frame_count = 3,
      cap_frames = [0, 1, 2]\<rparr>) = [(606, 1080), (606, 1080), (606, 1080)]"
proof -
  have g: "face_geometry 606 1080 = Inr (606, 1080)"
    by (simp add: face_geometry_def ensure_valid_dimensions_def face_target_size_def py_int_def)
  define cap :: "nat video" where "cap = \<lparr>is_opened = True, cap_width = 606, cap_height = 1080,
      cap_fps = 30, cap_frame_count = 3, cap_frames = [0, 1, 2]\<rparr>"
  have c: "is_opened cap" "face_geometry (cap_width cap) (cap_height cap) = Inr (606, 1080)"
    "cap_width cap \<le> 606" "cap_frames cap = [0, 1, 2]"
    using g by (simp_all add: cap_def)
  from passthrough_no_detection [OF c(1-3), of "\<lambda>k::nat. [(10, 10, 50, 50, 1)]"
      "\<lparr>pipe_capacity = None, exit_code = 0\<rparr>"]
  show ?thesis using g unfolding cap_def [symmetric] c(4)
    by (simp add: numeral_3_eq_3)
qed

lemma ceil_div_step:
  fixes u j :: int
  assumes "0 < u"
  shows "(j + 1 + u - 1) div u = (j + u - 1) div u + (if j mod u = 0 then 1 else 0)"
proof -
  have a: "(j + 1 + u - 1) div u = j div u + 1"
    using assms by (simp add: add.commute)
  show ?thesis
  proof (cases "j mod u = 0")
    case True
    have "j + u - 1 = u * (j div u) + (u - 1)"
      using True mult_div_mod_eq [of u j] by simp
    then have "(j + u - 1) div u = j div u"
      using assms by (intro int_div_pos_eq [where r = "u - 1"]) simp_all
    then show ?thesis using a True by simp
  next
    case False
    have r: "0 < j mod u" "j mod u < u"
      using assms False pos_mod_sign [of u j] pos_mod_bound [of u j] by linarith+
    have "j + u - 1 = u * (j div u + 1) + (j mod u - 1)"
      using mult_div_mod_eq [of u j] by (simp add: algebra_simps)
    then have "(j + u - 1) div u = j div u + 1"
      using r by (intro int_div_pos_eq [where r = "j mod u - 1"]) simp_all
    then show ?thesis using a False by simp
  qed
qed


lemma clamp_mid:
  fixes w tw :: real
  assumes "tw \<le> w"
  shows "clamp (w / 2) (tw / 2) (w - tw / 2) = w / 2"
  using assms by (simp add: clamp_def)

lemma face_smooth_fields:
  "missing_frames (fst (face_smooth cfg st)) = missing_frames st"
  "frame_idx (fst (face_smooth cfg st)) = frame_idx st"
  "target_center (fst (face_smooth cfg st)) =
     clamp (target_center st) (real_of_int (fc_target_width cfg) / 2)
       (real_of_int (fc_width cfg) - real_of_int (fc_target_width cfg) / 2)"
  by (simp_all add: face_smooth_def Let_def)

lemma face_detect_update_empty:
  assumes "normalize_faces detected (fc_width cfg) (fc_height cfg) = []"
  shows "face_detect_update cfg st detected =
           Inr (st\<lparr>missing_frames := missing_frames st + fc_update_interval cfg,
                   target_center :=
                     (if fc_missing_threshold cfg \<le> missing_frames st + fc_update_interval cfg
                      then real_of_int (fc_width cfg) / 2 else target_center st)\<rparr>)"
  using assms by (simp add: face_detect_update_def pick_face_center_def Let_def)

lemma face_step_empty:
  assumes "normalize_faces (detect frame) (fc_width cfg) (fc_height cfg) = []"
    and "fc_target_width cfg \<le> fc_width cfg"
  shows "\<exists>st' crop_x. face_step cfg detect st frame = Inr (st', crop_x) \<and>
           frame_idx st' = frame_idx st \<and>
           missing_frames st' = missing_frames st +
              (if is_update_frame cfg st then fc_update_interval cfg else 0) \<and>
           (if is_update_frame cfg st
            then (fc_missing_threshold cfg \<le> missing_frames st' \<longrightarrow>
                    target_center st' = real_of_int (fc_width cfg) / 2)
            else (target_center st = real_of_int (fc_width cfg) / 2 \<longrightarrow>
                    target_center st' = real_of_int (fc_width cfg) / 2))"
proof -
  have mid: "clamp (real_of_int (fc_width cfg) / 2) (real_of_int (fc_target_width cfg) / 2)
       (real_of_int (fc_width cfg) - real_of_int (fc_target_width cfg) / 2)
     = real_of_int (fc_width cfg) / 2"
    using assms(2) by (intro clamp_mid) simp
  show ?thesis
  proof (cases "is_update_frame cfg st")
    case True
    define st1 where "st1 = st\<lparr>missing_frames := missing_frames st + fc_update_interval cfg,
                   target_center :=
                     (if fc_missing_threshold cfg \<le> missing_frames st + fc_update_interval cfg
                      then real_of_int (fc_width cfg) / 2 else target_center st)\<rparr>"
    have step: "face_step cfg detect st frame = Inr (face_smooth cfg st1)"
      using True face_detect_update_empty [OF assms(1), of st]
      by (simp add: face_step_def st1_def)
    obtain st' crop_x where sm: "face_smooth cfg st1 = (st', crop_x)"
      by (cases "face_smooth cfg st1")
    then have st': "st' = fst (face_smooth cfg st1)" by simp
    have "frame_idx st' = frame_idx st"
      "missing_frames st' = missing_frames st + fc_update_interval cfg"
      by (simp_all add: st' face_smooth_fields st1_def)
    moreover have "fc_missing_threshold cfg \<le> missing_frames st + fc_update_interval cfg \<Longrightarrow>
        target_center st' = real_of_int (fc_width cfg) / 2"
      by (simp add: st' face_smooth_fields st1_def mid)
    ultimately show ?thesis using True step sm by simp
  next
    case False
    have step: "face_step cfg detect st frame = Inr (face_smooth cfg st)"
      using False by (simp add: face_step_def)
    obtain st' crop_x where sm: "face_smooth cfg st = (st', crop_x)"
      by (cases "face_smooth cfg st")
    then have st': "st' = fst (face_smooth cfg st)" by simp
    have "frame_idx st' = frame_idx st" "missing_frames st' = missing_frames st"
      by (simp_all add: st' face_smooth_fields)
    moreover have "target_center st' = real_of_int (fc_width cfg) / 2"
      if t: "target_center st = real_of_int (fc_width cfg) / 2"
      unfolding st' face_smooth_fields(3) t by (rule mid)
    ultimately show ?thesis using False step sm by simp
  qed
qed


lemma face_loop_Cons_states:
  assumes "face_step cfg detect st frame = Inr (st', crop_x)"
  shows "states (face_loop cfg detect snk n st (frame # rest)) = [st'] \<or>
         states (face_loop cfg detect snk n st (frame # rest)) =
           st' # states (face_loop cfg detect snk (Suc n) (st'\<lparr>frame_idx := frame_idx st' + 1\<rparr>) rest)"
  using assms by (auto simp: Let_def split: sum.splits)

lemma face_loop_missing_count:
  assumes "0 < fc_update_interval cfg" and "fc_target_width cfg \<le> fc_width cfg"
  shows "\<forall>frame \<in> set frames. normalize_faces (detect frame) (fc_width cfg) (fc_height cfg) = [] \<Longrightarrow>
         i < length (states (face_loop cfg detect snk n st frames)) \<Longrightarrow>
         missing_frames (states (face_loop cfg detect snk n st frames) ! i) =
           missing_frames st + fc_update_interval cfg *
             (ceil_div (frame_idx st + int i + 1) (fc_update_interval cfg)
                - ceil_div (frame_idx st) (fc_update_interval cfg))"
proof (induction frames arbitrary: st n i)
  case Nil
  then show ?case by simp
next
  case (Cons frame rest)
  let ?u = "fc_update_interval cfg"
  from Cons.prems(1) have e: "normalize_faces (detect frame) (fc_width cfg) (fc_height cfg) = []"
    and er: "\<forall>frame \<in> set rest. normalize_faces (detect frame) (fc_width cfg) (fc_height cfg) = []"
    by simp_all
  from face_step_empty [where detect = detect and frame = frame and cfg = cfg and st = st, OF e assms(2)]
  obtain st' crop_x where step: "face_step cfg detect st frame = Inr (st', crop_x)"
    and idx: "frame_idx st' = frame_idx st"
    and mis: "missing_frames st' = missing_frames st + (if is_update_frame cfg st then ?u else 0)"
    by blast
  have cd: "ceil_div (frame_idx st + 1) ?u - ceil_div (frame_idx st) ?u
              = (if is_update_frame cfg st then 1 else 0)"
    using ceil_div_step [OF assms(1), of "frame_idx st"]
    by (simp add: ceil_div_def is_update_frame_def)
  have first: "missing_frames st' = missing_frames st + ?u *
      (ceil_div (frame_idx st + 1) ?u - ceil_div (frame_idx st) ?u)"
    unfolding cd mis by simp
  let ?next = "st'\<lparr>frame_idx := frame_idx st' + 1\<rparr>"
  let ?rest = "states (face_loop cfg detect snk (Suc n) ?next rest)"
  show ?case
  proof (cases i)
    case 0
    then show ?thesis using face_loop_Cons_states [OF step, of snk n rest] first by auto
  next
    case (Suc k)
    with Cons.prems(2) face_loop_Cons_states [OF step, of snk n rest]
    have full: "states (face_loop cfg detect snk n st (frame # rest)) = st' # ?rest"
      and k: "k < length ?rest"
      by auto
    from Cons.IH [OF er k]
    have "missing_frames (?rest ! k) = missing_frames st' + ?u *
             (ceil_div (frame_idx st + 1 + int k + 1) ?u - ceil_div (frame_idx st + 1) ?u)"
      by (simp add: idx)
    then show ?thesis
      unfolding full Suc first by (simp add: algebra_simps)
  qed
qed


lemma ceil_div_aligned:
  fixes u j :: int
  assumes "0 < u" "j mod u = 0"
  shows "ceil_div (j + int i + 1) u - ceil_div j u = int i div u + 1"
proof -
  have j: "j = u * (j div u)" using assms(2) mult_div_mod_eq [of u j] by simp
  have "(j + int i + 1 + u - 1) div u = (u * (j div u) + (int i + u)) div u"
    using j by (simp add: algebra_simps)
  also have "\<dots> = j div u + (int i + u) div u"
    using assms(1) by (subst div_mult_self4) simp_all
  also have "(int i + u) div u = int i div u + 1"
    using assms(1) by simp
  finally have a: "ceil_div (j + int i + 1) u = j div u + int i div u + 1"
    by (simp add: ceil_div_def)
  have "(j + u - 1) div u = (u * (j div u) + (u - 1)) div u"
    using j by (simp add: algebra_simps)
  also have "\<dots> = j div u + (u - 1) div u"
    using assms(1) by (subst div_mult_self4) simp_all
  also have "(u - 1) div u = 0"
    using assms(1) by simp
  finally have b: "ceil_div j u = j div u" by (simp add: ceil_div_def)
  show ?thesis using a b by simp
qed

lemma face_config_of_fields:
  "fc_width (face_config_of width height tw th fps) = width"
  "fc_height (face_config_of width height tw th fps) = height"
  "fc_target_width (face_config_of width height tw th fps) = tw"
  "fc_update_interval (face_config_of width height tw th fps) = max 1 (py_int (fps * (1 / 2)))"
  "fc_missing_threshold (face_config_of width height tw th fps) = py_int (fps * 2)"
  by (simp_all add: face_config_of_def MISSING_FACE_SECONDS_def)

lemma clamp_id:
  fixes v :: real
  shows "lo \<le> v \<Longrightarrow> v \<le> hi \<Longrightarrow> clamp v lo hi = v"
  by (simp add: clamp_def)

lemma face_step_empty_exact:
  assumes "normalize_faces (detect frame) (fc_width cfg) (fc_height cfg) = []"
    and "fc_target_width cfg \<le> fc_width cfg"
    and "real_of_int (fc_target_width cfg) / 2 \<le> target_center st"
    and "target_center st \<le> real_of_int (fc_width cfg) - real_of_int (fc_target_width cfg) / 2"
  shows "\<exists>st' crop_x. face_step cfg detect st frame = Inr (st', crop_x) \<and>
           frame_idx st' = frame_idx st \<and>
           missing_frames st' = missing_frames st +
              (if is_update_frame cfg st then fc_update_interval cfg else 0) \<and>
           target_center st' =
              (if is_update_frame cfg st \<and>
                  fc_missing_threshold cfg \<le> missing_frames st + fc_update_interval cfg
               then real_of_int (fc_width cfg) / 2 else target_center st)"
proof -
  have mid: "clamp (real_of_int (fc_width cfg) / 2) (real_of_int (fc_target_width cfg) / 2)
       (real_of_int (fc_width cfg) - real_of_int (fc_target_width cfg) / 2)
     = real_of_int (fc_width cfg) / 2"
    using assms(2) by (intro clamp_mid) simp
  have held: "clamp (target_center st) (real_of_int (fc_target_width cfg) / 2)
       (real_of_int (fc_width cfg) - real_of_int (fc_target_width cfg) / 2)
     = target_center st"
    using assms(3,4) by (rule clamp_id)
  show ?thesis
  proof (cases "is_update_frame cfg st")
    case True
    define st1 where "st1 = st\<lparr>missing_frames := missing_frames st + fc_update_interval cfg,
                   target_center :=
                     (if fc_missing_threshold cfg \<le> missing_frames st + fc_update_interval cfg
                      then real_of_int (fc_width cfg) / 2 else target_center st)\<rparr>"
    have step: "face_step cfg detect st frame = Inr (face_smooth cfg st1)"
      using True face_detect_update_empty [OF assms(1), of st]
      by (simp add: face_step_def st1_def)
    obtain st' crop_x where sm: "face_smooth cfg st1 = (st', crop_x)"
      by (cases "face_smooth cfg st1")
    then have st': "st' = fst (face_smooth cfg st1)" by simp
    have "frame_idx st' = frame_idx st"
      "missing_frames st' = missing_frames st + fc_update_interval cfg"
      by (simp_all add: st' face_smooth_fields st1_def)
    moreover have "target_center st' =
        (if fc_missing_threshold cfg \<le> missing_frames st + fc_update_interval cfg
         then real_of_int (fc_width cfg) / 2 else target_center st)"
      by (simp add: st' face_smooth_fields st1_def mid held)
    ultimately show ?thesis using True step sm by simp
  next
    case False
    have step: "face_step cfg detect st frame = Inr (face_smooth cfg st)"
      using False by (simp add: face_step_def)
    obtain st' crop_x where sm: "face_smooth cfg st = (st', crop_x)"
      by (cases "face_smooth cfg st")
    then have st': "st' = fst (face_smooth cfg st)" by simp
    have "frame_idx st' = frame_idx st" "missing_frames st' = missing_frames st"
      by (simp_all add: st' face_smooth_fields)
    moreover have "target_center st' = target_center st"
      unfolding st' face_smooth_fields(3) by (rule held)
    ultimately show ?thesis using False step sm by simp
  qed
qed

lemma face_loop_held:
  assumes "0 < fc_update_interval cfg" and "fc_target_width cfg \<le> fc_width cfg"
  shows "\<forall>frame \<in> set frames. normalize_faces (detect frame) (fc_width cfg) (fc_height cfg) = [] \<Longrightarrow>
         real_of_int (fc_target_width cfg) / 2 \<le> target_center st \<Longrightarrow>
         target_center st \<le> real_of_int (fc_width cfg) - real_of_int (fc_target_width cfg) / 2 \<Longrightarrow>
         is_update_frame cfg st \<or>
           (fc_missing_threshold cfg \<le> missing_frames st \<longrightarrow>
              target_center st = real_of_int (fc_width cfg) / 2) \<Longrightarrow>
         i < length (states (face_loop cfg detect snk n st frames)) \<Longrightarrow>
         missing_frames st \<le> missing_frames (states (face_loop cfg detect snk n st frames) ! i) \<and>
         target_center (states (face_loop cfg detect snk n st frames) ! i) =
           (if fc_missing_threshold cfg
                 \<le> missing_frames (states (face_loop cfg detect snk n st frames) ! i)
            then real_of_int (fc_width cfg) / 2 else target_center st)"
proof (induction frames arbitrary: st n i)
  case Nil
  then show ?case by simp
next
  case (Cons frame rest)
  let ?u = "fc_update_interval cfg"
  let ?mid = "real_of_int (fc_width cfg) / 2"
  let ?thr = "fc_missing_threshold cfg"
  from Cons.prems(1) have e: "normalize_faces (detect frame) (fc_width cfg) (fc_height cfg) = []"
    and er: "\<forall>frame \<in> set rest. normalize_faces (detect frame) (fc_width cfg) (fc_height cfg) = []"
    by simp_all
  from face_step_empty_exact [where detect = detect and frame = frame and cfg = cfg and st = st,
      OF e assms(2) Cons.prems(2,3)]
  obtain st' crop_x where step: "face_step cfg detect st frame = Inr (st', crop_x)"
    and mis: "missing_frames st' = missing_frames st + (if is_update_frame cfg st then ?u else 0)"
    and tgt: "target_center st' =
              (if is_update_frame cfg st \<and> ?thr \<le> missing_frames st + ?u
               then ?mid else target_center st)"
    by blast
  have mono: "missing_frames st \<le> missing_frames st'"
    using mis assms(1) by (simp split: if_splits)
  have now: "target_center st' = (if ?thr \<le> missing_frames st' then ?mid else target_center st)"
    using mis tgt Cons.prems(4) by (cases "is_update_frame cfg st") auto
  have midr: "real_of_int (fc_target_width cfg) / 2 \<le> ?mid"
    "?mid \<le> real_of_int (fc_width cfg) - real_of_int (fc_target_width cfg) / 2"
    using assms(2) by simp_all
  have rng: "real_of_int (fc_target_width cfg) / 2 \<le> target_center st'"
    "target_center st' \<le> real_of_int (fc_width cfg) - real_of_int (fc_target_width cfg) / 2"
    using now midr Cons.prems(2,3) by (simp_all split: if_splits)
  let ?next = "st'\<lparr>frame_idx := frame_idx st' + 1\<rparr>"
  let ?rest = "states (face_loop cfg detect snk (Suc n) ?next rest)"
  show ?case
  proof (cases i)
    case 0
    then show ?thesis using face_loop_Cons_states [OF step, of snk n rest] now mono by auto
  next
    case (Suc k)
    with Cons.prems(5) face_loop_Cons_states [OF step, of snk n rest]
    have full: "states (face_loop cfg detect snk n st (frame # rest)) = st' # ?rest"
      and k: "k < length ?rest"
      by auto
    have inv: "is_update_frame cfg ?next \<or>
        (?thr \<le> missing_frames ?next \<longrightarrow> target_center ?next = ?mid)"
      using now by simp
    have "missing_frames ?next \<le> missing_frames (?rest ! k) \<and>
          target_center (?rest ! k) =
            (if ?thr \<le> missing_frames (?rest ! k) then ?mid else target_center ?next)"
      using rng by (intro Cons.IH [OF er _ _ inv k]) simp_all
    then have "missing_frames st \<le> missing_frames (?rest ! k) \<and>
          target_center (?rest ! k) =
            (if ?thr \<le> missing_frames (?rest ! k) then ?mid else target_center st)"
      using mono now by auto
    then show ?thesis unfolding full Suc by simp
  qed
qed

lemma le_mult_iff_ceil_div:
  fixes t u k :: int
  assumes "0 < u"
  shows "t \<le> u * k \<longleftrightarrow> ceil_div t u \<le> k"
proof
  assume "t \<le> u * k"
  then have "t + u - 1 \<le> u * k + (u - 1)" by simp
  then have "(t + u - 1) div u \<le> (u * k + (u - 1)) div u"
    using assms by (intro zdiv_mono1) simp_all
  also have "(u * k + (u - 1)) div u = k"
    using assms by (intro int_div_pos_eq [where r = "u - 1"]) simp_all
  finally show "ceil_div t u \<le> k" by (simp add: ceil_div_def)
next
  assume a: "ceil_div t u \<le> k"
  show "t \<le> u * k"
  proof (rule ccontr)
    assume "\<not> t \<le> u * k"
    then have "u * (k + 1) + 0 \<le> t + u - 1" by (simp add: algebra_simps)
    then have "(u * (k + 1) + 0) div u \<le> (t + u - 1) div u"
      using assms by (intro zdiv_mono1) simp_all
    moreover have "(u * (k + 1) + 0) div u = k + 1"
      using assms by (intro int_div_pos_eq [where r = 0]) simp_all
    ultimately show False using a by (simp add: ceil_div_def)
  qed
qed

text \<open>
  C6, as claimed: the threshold is \<open>round(fps * 2.0)\<close>, reached after
  \<open>ceil(2.0 * fps / update_interval)\<close> consecutive empty update points. Line 314 sets
  \<open>missing_threshold = int(fps * MISSING_FACE_SECONDS)\<close>. At 4.3 fps the update interval
  is 2, the claimed threshold is \<open>round(8.6) = 9\<close> and the claimed count is
  \<open>ceil(8.6 / 2) = 5\<close>. With a face at center 1000 in frame 0 and none afterwards, the
  empty update points are frames 2, 4, 6 and 8; the target, held at 1000 through frame
  7, is \<open>1920 / 2 = 960\<close> after frame 8, the fourth of them, with 8 missing frames.
\<close>

theorem missing_face_recentering_counterexample:
  "face_geometry 1920 1080 = Inr (606, 1080) \<and>
   fc_update_interval (face_config_of 1920 1080 606 1080 (43 / 10)) = 2 \<and>
   py_round (43 / 10 * 2) = 9 \<and> \<lceil>2 * (43 / 10) / (2 :: real)\<rceil> = 5 \<and>
   map (\<lambda>s. (target_center s, missing_frames s))
     (states (crop_face_tracking
        (\<lambda>k::nat. if k = 0 then [(900, 400, 200, 200, 9 / 10)] else [])
        \<lparr>pipe_capacity = None, exit_code = 0\<rparr>
        \<lparr>is_opened = True, cap_width = 1920, cap_height = 1080, cap_fps = 43 / 10,
          cap_frame_count = 9, cap_frames = [0, 1, 2, 3, 4, 5, 6, 7, 8]\<rparr>))
   = [(1000, 0), (1000, 0), (1000, 2), (1000, 2), (1000, 4), (1000, 4), (1000, 6), (1000, 6),
      (960, 8)]"
  by code_simp


text \<open>
  C6, amended: at a detection update that yields no center, \<open>missing_frames\<close> grows by
  \<open>update_interval\<close>; the target center is exactly \<open>frame_width / 2\<close> after that update
  if \<open>missing_frames\<close> has reached \<open>int(fps * 2.0)\<close> (truncated, not rounded), and is
  unchanged otherwise. Hence over a run of frames without a usable face that starts at
  an update frame, after frame \<open>i\<close> of the run \<open>missing_frames\<close> has grown by
  \<open>update_interval * (i div update_interval + 1)\<close>, and the target center is
  \<open>frame_width / 2\<close> if that has reached \<open>int(fps * 2.0)\<close> and is the target the run
  started with otherwise: starting from \<open>missing_frames = 0\<close>, the target is recentred at
  the update point number \<open>ceil(int(fps * 2.0) / update_interval)\<close> of the run and not
  before. (The target of a planner state lies in the interval the crop window allows.)
\<close>

theorem missing_face_recentering:
  fixes fps :: real
  assumes cfg: "cfg = face_config_of width height tw th fps"
    and fps: "0 < fps" and tw: "tw \<le> width"
    and empty: "\<forall>frame \<in> set frames. normalize_faces (detect frame) width height = []"
    and aligned: "is_update_frame cfg st"
    and range: "real_of_int tw / 2 \<le> target_center st"
      "target_center st \<le> real_of_int width - real_of_int tw / 2"
  shows "(\<forall>frame \<in> set frames.
            \<exists>st' crop_x. face_step cfg detect st frame = Inr (st', crop_x) \<and>
              missing_frames st' = missing_frames st + fc_update_interval cfg \<and>
              target_center st' =
                (if py_int (fps * 2) \<le> missing_frames st'
                 then real_of_int width / 2 else target_center st)) \<and>
         (\<forall>i < length (states (face_loop cfg detect snk n st frames)).
            missing_frames (states (face_loop cfg detect snk n st frames) ! i) =
              missing_frames st +
                fc_update_interval cfg * (int i div fc_update_interval cfg + 1) \<and>
            target_center (states (face_loop cfg detect snk n st frames) ! i) =
              (if py_int (fps * 2)
                    \<le> missing_frames (states (face_loop cfg detect snk n st frames) ! i)
               then real_of_int width / 2 else target_center st) \<and>
            (missing_frames st = 0 \<longrightarrow>
               target_center (states (face_loop cfg detect snk n st frames) ! i) =
                 (if ceil_div (py_int (fps * 2)) (fc_update_interval cfg)
                       \<le> int i div fc_update_interval cfg + 1
                  then real_of_int width / 2 else target_center st)))"
proof (intro conjI ballI allI impI)
  let ?u = "fc_update_interval cfg"
  have f: "fc_width cfg = width" "fc_height cfg = height" "fc_target_width cfg = tw"
    "fc_missing_threshold cfg = py_int (fps * 2)"
    by (simp_all add: cfg face_config_of_fields)
  have u: "0 < ?u" by (simp add: cfg face_config_of_fields)
  have tw': "fc_target_width cfg \<le> fc_width cfg" using tw f by simp
  have empty': "\<forall>frame \<in> set frames.
      normalize_faces (detect frame) (fc_width cfg) (fc_height cfg) = []"
    using empty f by simp
  have range': "real_of_int (fc_target_width cfg) / 2 \<le> target_center st"
    "target_center st \<le> real_of_int (fc_width cfg) - real_of_int (fc_target_width cfg) / 2"
    using range f by simp_all
  {
    fix frame assume "frame \<in> set frames"
    then have e: "normalize_faces (detect frame) (fc_width cfg) (fc_height cfg) = []"
      using empty' by blast
    from face_step_empty_exact [where detect = detect and frame = frame and cfg = cfg and st = st,
        OF e tw' range']
    obtain st' crop_x where step: "face_step cfg detect st frame = Inr (st', crop_x)"
      and mis: "missing_frames st' = missing_frames st + ?u"
      and tgt: "target_center st' =
                  (if fc_missing_threshold cfg \<le> missing_frames st + ?u
                   then real_of_int (fc_width cfg) / 2 else target_center st)"
      using aligned by auto
    have "target_center st' =
            (if py_int (fps * 2) \<le> missing_frames st'
             then real_of_int width / 2 else target_center st)"
      using tgt mis f by simp
    then show "\<exists>st' crop_x. face_step cfg detect st frame = Inr (st', crop_x) \<and>
              missing_frames st' = missing_frames st + ?u \<and>
              target_center st' =
                (if py_int (fps * 2) \<le> missing_frames st'
                 then real_of_int width / 2 else target_center st)"
      using step mis by blast
  }
  fix i
  let ?s = "states (face_loop cfg detect snk n st frames) ! i"
  assume i: "i < length (states (face_loop cfg detect snk n st frames))"
  have al: "frame_idx st mod ?u = 0" using aligned by (simp add: is_update_frame_def)
  show cnt: "missing_frames ?s = missing_frames st + ?u * (int i div ?u + 1)"
    using face_loop_missing_count [OF u tw' empty' i] ceil_div_aligned [OF u al, of i]
    by simp
  from face_loop_held [OF u tw' empty' range' _ i] aligned
  show held: "target_center ?s =
      (if py_int (fps * 2) \<le> missing_frames ?s then real_of_int width / 2 else target_center st)"
    using f by simp
  {
    assume "missing_frames st = 0"
    then have "missing_frames ?s = ?u * (int i div ?u + 1)" using cnt by simp
    then have "py_int (fps * 2) \<le> missing_frames ?s \<longleftrightarrow>
        ceil_div (py_int (fps * 2)) ?u \<le> int i div ?u + 1"
      using le_mult_iff_ceil_div [OF u, of "py_int (fps * 2)" "int i div ?u + 1"] by simp
    then show "target_center ?s =
        (if ceil_div (py_int (fps * 2)) ?u \<le> int i div ?u + 1
         then real_of_int width / 2 else target_center st)"
      using held by simp
  }
qed

lemma recentering_example:
  "map (\<lambda>s. (target_center s, missing_frames s))
     (states (face_loop (face_config_of 1920 1080 606 1080 (43 / 10)) (\<lambda>k::nat. [])
        \<lparr>pipe_capacity = None, exit_code = 0\<rparr> 0
        \<lparr>smoothed_center = 1000, target_center = 1000, missing_frames = 0, frame_idx = 0\<rparr>
        [0, 1, 2, 3, 4, 5, 6]))
   = [(1000, 2), (1000, 2), (1000, 4), (1000, 4), (1000, 6), (1000, 6), (960, 8)]"
  by code_simp

theorem missing_face_recentering_witness:
  "(0::real) < 43 / 10 \<and> (606::int) \<le> 1920 \<and> normalize_faces [] 1920 1080 = [] \<and>
   is_update_frame (face_config_of 1920 1080 606 1080 (43 / 10))
     \<lparr>smoothed_center = 1000, target_center = 1000, missing_frames = 0, frame_idx = 0\<rparr> \<and>
   real_of_int 606 / 2 \<le> 1000 \<and> (1000::real) \<le> real_of_int 1920 - real_of_int 606 / 2 \<and>
   fc_update_interval (face_config_of 1920 1080 606 1080 (43 / 10)) = 2 \<and>
   py_int (43 / 10 * 2) = 8 \<and>
   ceil_div (py_int (43 / 10 * 2)) (fc_update_interval (face_config_of 1920 1080 606 1080 (43 / 10))) = 4 \<and>
   target_center
     (states (face_loop (face_config_of 1920 1080 606 1080 (43 / 10)) (\<lambda>k::nat. [])
        \<lparr>pipe_capacity = None, exit_code = 0\<rparr> 0
        \<lparr>smoothed_center = 1000, target_center = 1000, missing_frames = 0, frame_idx = 0\<rparr>
        [0, 1, 2, 3, 4, 5, 6]) ! 5) = 1000 \<and>
   target_center
     (states (face_loop (face_config_of 1920 1080 606 1080 (43 / 10)) (\<lambda>k::nat. [])
        \<lparr>pipe_capacity = None, exit_code = 0\<rparr> 0
        \<lparr>smoothed_center = 1000, target_center = 1000, missing_frames = 0, frame_idx = 0\<rparr>
        [0, 1, 2, 3, 4, 5, 6]) ! 6) = 960"
proof -
  define cfg where "cfg = face_config_of 1920 1080 606 1080 (43 / 10)"
  define st where "st = \<lparr>smoothed_center = 1000, target_center = 1000, missing_frames = 0,
    frame_idx = 0\<rparr>"
  define r where "r = face_loop cfg (\<lambda>k::nat. []) \<lparr>pipe_capacity = None, exit_code = 0\<rparr> 0 st
    [0, 1, 2, 3, 4, 5, 6]"
  have u: "fc_update_interval cfg = 2"
    by (simp add: cfg_def face_config_of_def py_int_def)
  have t: "py_int (43 / 10 * 2) = 8" by (simp add: py_int_def)
  have c: "ceil_div (py_int (43 / 10 * 2)) (fc_update_interval cfg) = 4"
    by (simp add: u ceil_div_def py_int_def)
  have h: "(0::real) < 43 / 10" "(606::int) \<le> 1920" by simp_all
  have e0: "normalize_faces [] 1920 1080 = []" by (simp add: normalize_faces_def)
  then have e: "\<forall>frame \<in> set [0, 1, 2, 3, 4, 5, 6 :: nat].
      normalize_faces ((\<lambda>k::nat. []) frame) 1920 1080 = []"
    by simp
  have a: "is_update_frame cfg st" by (simp add: is_update_frame_def st_def u)
  have g: "real_of_int 606 / 2 \<le> target_center st"
    "target_center st \<le> real_of_int 1920 - real_of_int 606 / 2"
    by (simp_all add: st_def)
  have m: "missing_frames st = 0" "target_center st = 1000" by (simp_all add: st_def)
  have "map (\<lambda>s. (target_center s, missing_frames s)) (states r)
     = [(1000, 2), (1000, 2), (1000, 4), (1000, 4), (1000, 6), (1000, 6), (960, 8)]"
    unfolding r_def cfg_def st_def by (rule recentering_example)
  from arg_cong [OF this, of length] have len: "5 < length (states r)" "6 < length (states r)"
    by simp_all
  from missing_face_recentering [OF cfg_def h e a g, of "\<lparr>pipe_capacity = None, exit_code = 0\<rparr>" 0]
  have "\<forall>i < length (states r). missing_frames st = 0 \<longrightarrow>
            target_center (states r ! i) =
              (if ceil_div (py_int (43 / 10 * 2)) (fc_update_interval cfg)
                    \<le> int i div fc_update_interval cfg + 1
               then real_of_int 1920 / 2 else target_center st)"
    unfolding r_def by blast
  with len m have "target_center (states r ! 5) =
      (if ceil_div (py_int (43 / 10 * 2)) (fc_update_interval cfg)
            \<le> int 5 div fc_update_interval cfg + 1
       then real_of_int 1920 / 2 else 1000)"
    "target_center (states r ! 6) =
      (if ceil_div (py_int (43 / 10 * 2)) (fc_update_interval cfg)
            \<le> int 6 div fc_update_interval cfg + 1
       then real_of_int 1920 / 2 else 1000)"
    by simp_all
  then have "target_center (states r ! 5) = 1000" "target_center (states r ! 6) = 960"
    using c u by simp_all
  then show ?thesis
    using h e0 a g u t c m
    unfolding r_def [symmetric] st_def [symmetric] cfg_def [symmetric] by simp
qed


text \<open>
  The count of the code is never larger than \<open>ceil(2.0 * fps / update_interval)\<close>: the
  target is recentred no later than two seconds of empty update points.
\<close>

lemma recentering_not_later_than_claimed:
  fixes fps :: real and u :: int
  assumes "0 < fps" "0 < u"
  shows "ceil_div (py_int (fps * 2)) u \<le> \<lceil>2 * fps / real_of_int u\<rceil>"
proof -
  let ?k = "\<lceil>2 * fps / real_of_int u\<rceil>"
  have upos: "0 < real_of_int u" using assms by simp
  have "2 * fps / real_of_int u \<le> real_of_int ?k" by (rule le_of_int_ceiling)
  then have "2 * fps \<le> real_of_int ?k * real_of_int u"
    using upos by (simp only: pos_divide_le_eq)
  then have "fps * 2 \<le> real_of_int (u * ?k)"
    by (simp only: of_int_mult mult.commute)
  then have "\<lfloor>fps * 2\<rfloor> \<le> \<lfloor>real_of_int (u * ?k)\<rfloor>"
    by (rule floor_mono)
  then have "\<lfloor>fps * 2\<rfloor> \<le> u * ?k"
    by (simp only: floor_of_int)
  then have "py_int (fps * 2) \<le> u * ?k"
    using assms(1) by (simp add: py_int_def)
  then show ?thesis
    using le_mult_iff_ceil_div [OF assms(2), of "py_int (fps * 2)" ?k] by simp
qed

subsection \<open>Motion-tracking (screen) planner\<close>

lemma magnitude_horizontal: "magnitude (dx, 0) = \<bar>dx\<bar>"
  by simp

lemma motion_target_quiet:
  assumes "\<forall>row \<in> set flow. \<forall>v \<in> set row. magnitude v \<le> 2"
  shows "motion_target cfg flow = None"
proof -
  have "\<not> list_ex (list_ex (\<lambda>m. 2 < m)) (map (map magnitude) flow)"
    using assms by (fastforce simp: list_ex_iff simp del: magnitude.simps)
  then show ?thesis by (simp add: motion_target_def Let_def)
qed

lemma last_update_aligned:
  fixes u k :: nat
  assumes "Suc k mod u = 0" "0 < u"
  shows "k - k mod u = Suc k - u" "u \<le> Suc k"
proof -
  have "Suc (k mod u) = u"
    using assms by (simp add: mod_Suc split: if_splits)
  then have m: "k mod u = u - 1" by simp
  have "u - 1 \<le> k" using m mod_less_eq_dividend [of k u] by simp
  then show "u \<le> Suc k" using assms(2) by simp
  then show "k - k mod u = Suc k - u" using m assms(2) by simp
qed

lemma last_update_unaligned:
  fixes u k :: nat
  assumes "Suc k mod u \<noteq> 0"
  shows "Suc k - Suc k mod u = k - k mod u"
  using assms by (simp add: mod_Suc split: if_splits)

lemma int_mod_aligned:
  assumes "0 < u"
  shows "(int j mod u = 0) = (j mod nat u = 0)"
proof -
  have "int j mod u = int (j mod nat u)"
    using assms by (simp add: zmod_int)
  then show ?thesis by simp
qed


lemma screen_step_unaligned:
  assumes "screen_frame_idx st mod sc_update_interval cfg \<noteq> 0"
  shows "screen_step cfg estimate st frame = st"
  using assms by (simp add: screen_step_def)

lemma screen_step_first:
  assumes "screen_frame_idx st mod sc_update_interval cfg = 0" "prev_gray st = None"
  shows "screen_step cfg estimate st frame = st\<lparr>prev_gray := Some frame\<rparr>"
  using assms by (simp add: screen_step_def)

lemma screen_step_quiet_update:
  assumes "screen_frame_idx st mod sc_update_interval cfg = 0" "prev_gray st = Some prev"
    and "motion_target cfg (estimate prev frame) = None"
  shows "screen_step cfg estimate st frame = st\<lparr>prev_gray := Some frame\<rparr>"
  using assms by (simp add: screen_step_def)


lemma screen_loop_Cons_states:
  "states (screen_loop cfg estimate snk n st (frame # rest)) = [] \<or>
   states (screen_loop cfg estimate snk n st (frame # rest)) = [screen_step cfg estimate st frame] \<or>
   states (screen_loop cfg estimate snk n st (frame # rest)) =
     screen_step cfg estimate st frame #
       states (screen_loop cfg estimate snk (Suc n)
         ((screen_step cfg estimate st frame)
            \<lparr>screen_frame_idx := screen_frame_idx (screen_step cfg estimate st frame) + 1\<rparr>) rest)"
  by (simp add: Let_def split: sum.splits)

lemma screen_loop_still:
  fixes fs :: "'f list"
  assumes u: "0 < sc_update_interval cfg"
    and quiet: "\<forall>i < length fs. i mod nat (sc_update_interval cfg) = 0 \<and>
                  nat (sc_update_interval cfg) \<le> i \<longrightarrow>
                  (\<forall>row \<in> set (estimate (fs ! (i - nat (sc_update_interval cfg))) (fs ! i)).
                     \<forall>v \<in> set row. magnitude v \<le> 2)"
  shows "xs = drop j fs \<Longrightarrow> screen_frame_idx st = int j \<Longrightarrow> smoothed_x st = 0 \<Longrightarrow>
         prev_gray st = (case j of 0 \<Rightarrow> None
                         | Suc k \<Rightarrow> Some (fs ! (k - k mod nat (sc_update_interval cfg)))) \<Longrightarrow>
         s \<in> set (states (screen_loop cfg estimate snk n st xs)) \<Longrightarrow> smoothed_x s = 0"
proof (induction xs arbitrary: j st n)
  case Nil
  then show ?case by simp
next
  case (Cons frame rest)
  let ?u = "nat (sc_update_interval cfg)"
  have upos: "0 < ?u" using u by simp
  have j: "j < length fs"
  proof (rule ccontr)
    assume "\<not> j < length fs"
    then have "drop j fs = []" by simp
    with Cons.prems(1) show False by simp
  qed
  have "drop j fs = fs ! j # drop (Suc j) fs"
    using j by (rule Cons_nth_drop_Suc [symmetric])
  with Cons.prems(1) have frame: "frame = fs ! j" and rest: "rest = drop (Suc j) fs"
    by simp_all
  let ?st' = "screen_step cfg estimate st frame"
  have al: "(screen_frame_idx st mod sc_update_interval cfg = 0) = (j mod ?u = 0)"
    unfolding Cons.prems(2) by (rule int_mod_aligned [OF u])
  have step: "?st' = st \<and> j - j mod ?u = (j - 1) - (j - 1) mod ?u \<and> 0 < j \<or>
              ?st' = st\<lparr>prev_gray := Some (fs ! j)\<rparr> \<and> j mod ?u = 0"
  proof (cases "j mod ?u = 0")
    case True
    then have a: "screen_frame_idx st mod sc_update_interval cfg = 0" using al by simp
    show ?thesis
    proof (cases j)
      case 0
      then have "prev_gray st = None" using Cons.prems(4) by simp
      from screen_step_first [OF a this] True frame show ?thesis by simp
    next
      case (Suc k)
      then have p: "prev_gray st = Some (fs ! (k - k mod ?u))" using Cons.prems(4) by simp
      have k: "k - k mod ?u = j - ?u" "?u \<le> j"
        using last_update_aligned [of k ?u] True upos Suc by simp_all
      have "j mod ?u = 0 \<and> ?u \<le> j" using True k(2) by simp
      with quiet j
      have "\<forall>row \<in> set (estimate (fs ! (j - ?u)) (fs ! j)). \<forall>v \<in> set row. magnitude v \<le> 2"
        by (elim allE [where x = j] impE) assumption+
      then have "motion_target cfg (estimate (fs ! (k - k mod ?u)) frame) = None"
        unfolding k(1) frame by (rule motion_target_quiet)
      from screen_step_quiet_update [where estimate = estimate and frame = frame, OF a p this] True frame
      show ?thesis by simp
    qed
  next
    case False
    then have a: "screen_frame_idx st mod sc_update_interval cfg \<noteq> 0" using al by simp
    from False obtain k where k: "j = Suc k" by (cases j) auto
    have "j - j mod ?u = k - k mod ?u"
      using last_update_unaligned [of k ?u] False k by simp
    with screen_step_unaligned [OF a] k show ?thesis by simp
  qed
  let ?next = "?st'\<lparr>screen_frame_idx := screen_frame_idx ?st' + 1\<rparr>"
  have z: "smoothed_x ?st' = 0" using step Cons.prems(3) by auto
  have nx1: "screen_frame_idx ?next = int (Suc j)" using step Cons.prems(2) by auto
  have nx2: "smoothed_x ?next = 0" using z by simp
  have nx3: "prev_gray ?next = (case Suc j of 0 \<Rightarrow> None | Suc k \<Rightarrow> Some (fs ! (k - k mod ?u)))"
  proof -
    from step show ?thesis
    proof
      assume s: "?st' = st \<and> j - j mod ?u = (j - 1) - (j - 1) mod ?u \<and> 0 < j"
      then obtain k where k: "j = Suc k" by (cases j) auto
      then have "prev_gray st = Some (fs ! (k - k mod ?u))" using Cons.prems(4) by simp
      then show ?thesis using s k by simp
    next
      assume "?st' = st\<lparr>prev_gray := Some (fs ! j)\<rparr> \<and> j mod ?u = 0"
      then show ?thesis by simp
    qed
  qed
  from screen_loop_Cons_states [of cfg estimate snk n st frame rest] Cons.prems(5)
  have "s = ?st' \<or> s \<in> set (states (screen_loop cfg estimate snk (Suc n) ?next rest))"
    by auto
  then show ?case
  proof
    assume "s = ?st'"
    then show ?thesis using z by simp
  next
    assume "s \<in> set (states (screen_loop cfg estimate snk (Suc n) ?next rest))"
    with rest nx1 nx2 nx3 show ?thesis by (rule Cons.IH)
  qed
qed

lemma crop_screen_tracking_states:
  "states (crop_screen_tracking estimate snk cap) = [] \<or>
   (\<exists>tw th sw sh. states (crop_screen_tracking estimate snk cap) =
      states (screen_loop
        \<lparr>sc_target_width = tw, sc_target_height = th, sc_scaled_width = sw,
         sc_scaled_height = sh,
         sc_update_interval = screen_update_interval (resolve_fps cap),
         sc_total_frames = cap_frame_count cap\<rparr>
        estimate snk 0 screen_initial (cap_frames cap)))"
  by (auto simp: crop_screen_tracking_def failed_def Let_def split: sum.splits prod.splits)

text \<open>
  C8. When at every update point of the input (every \<open>update_interval\<close>-th frame after
  the first) the flow field from the previous update frame has no pixel of magnitude
  greater than 2.0, as an all-zero field has, \<open>smoothed_x\<close> is 0, its initial value,
  after every frame of the pass of \<open>crop_screen_tracking\<close>.
\<close>

theorem still_input_keeps_pan:
  assumes "\<forall>i < length (cap_frames cap).
             i mod nat (screen_update_interval (resolve_fps cap)) = 0 \<and>
             nat (screen_update_interval (resolve_fps cap)) \<le> i \<longrightarrow>
             (\<forall>row \<in> set (estimate
                            (cap_frames cap ! (i - nat (screen_update_interval (resolve_fps cap))))
                            (cap_frames cap ! i)).
                \<forall>v \<in> set row. magnitude v \<le> 2)"
  shows "\<forall>st \<in> set (states (crop_screen_tracking estimate snk cap)). smoothed_x st = 0"
proof
  fix st
  assume st: "st \<in> set (states (crop_screen_tracking estimate snk cap))"
  from st crop_screen_tracking_states [of estimate snk cap]
  obtain tw th sw sh where mem0: "st \<in> set (states (screen_loop
        \<lparr>sc_target_width = tw, sc_target_height = th, sc_scaled_width = sw,
         sc_scaled_height = sh,
         sc_update_interval = screen_update_interval (resolve_fps cap),
         sc_total_frames = cap_frame_count cap\<rparr>
        estimate snk 0 screen_initial (cap_frames cap)))"
    by auto
  define cfg where "cfg = \<lparr>sc_target_width = tw, sc_target_height = th, sc_scaled_width = sw,
         sc_scaled_height = sh,
         sc_update_interval = screen_update_interval (resolve_fps cap),
         sc_total_frames = cap_frame_count cap\<rparr>"
  have cfg: "sc_update_interval cfg = screen_update_interval (resolve_fps cap)"
    by (simp add: cfg_def)
  have mem: "st \<in> set (states (screen_loop cfg estimate snk 0 screen_initial (cap_frames cap)))"
    using mem0 by (simp only: cfg_def)
  have u: "0 < sc_update_interval cfg" by (simp add: cfg screen_update_interval_def)
  have init: "screen_frame_idx (screen_initial :: 'a screen_state) = int 0"
    "smoothed_x (screen_initial :: 'a screen_state) = 0"
    "prev_gray (screen_initial :: 'a screen_state) =
       (case 0 :: nat of 0 \<Rightarrow> None
        | Suc k \<Rightarrow> Some (cap_frames cap ! (k - k mod nat (sc_update_interval cfg))))"
    by (simp_all add: screen_initial_def)
  have d: "cap_frames cap = drop 0 (cap_frames cap)" by simp
  from screen_loop_still [OF u assms [folded cfg] d init mem]
  show "smoothed_x st = 0" .
qed

lemma tiny_geometry:
  "screen_geometry 8 4 = Inr (2, 4)" "screen_scaled_size 8 4 2 4 = Inr (3, 1)"
  by (simp_all add: screen_geometry_def ensure_valid_dimensions_def screen_target_size_def
      screen_scaled_size_def py_int_def Let_def)

lemma tiny_render:
  "screen_render \<lparr>sc_target_width = 2, sc_target_height = 4, sc_scaled_width = 3,
      sc_scaled_height = 1, sc_update_interval = 1, sc_total_frames = n\<rparr> 0 = Inr (2, 4)"
  by (simp add: screen_render_def slice_size_def Let_def)

lemma tiny_target:
  "motion_target \<lparr>sc_target_width = 2, sc_target_height = 4, sc_scaled_width = 3,
      sc_scaled_height = 1, sc_update_interval = 1, sc_total_frames = n\<rparr>
     [[(0, 0), (0, 0), (3, 0)]] = Some 1"
  by (simp add: motion_target_def col_motion_def masked_def motion_centroid_def py_int_def
      Let_def numeral_3_eq_3 upt_rec del: magnitude.simps add: magnitude_horizontal)

lemma tiny_quiet:
  "motion_target cfg [[(0, 0), (0, 0), (0, 0)]] = None"
  by (rule motion_target_quiet) simp

lemma still_example:
  "map smoothed_x (states (crop_screen_tracking (\<lambda>p c :: nat. [[(0, 0), (0, 0), (0, 0)]])
       \<lparr>pipe_capacity = None, exit_code = 0\<rparr>
       \<lparr>is_opened = True, cap_width = 8, cap_height = 4, cap_fps = 1, cap_frame_count = 3,
        cap_frames = [0, 1, 2]\<rparr>)) = [0, 0, 0]"
  by (simp add: crop_screen_tracking_def tiny_geometry resolve_fps_def py_int_def
      screen_update_interval_def
      screen_initial_def screen_step_def tiny_quiet tiny_render pipe_accepts_def Let_def)


theorem still_input_keeps_pan_witness:
  "magnitude (0, 0) \<le> 2 \<and>
   length (states (crop_screen_tracking (\<lambda>p c :: nat. [[(0, 0), (0, 0), (0, 0)]])
       \<lparr>pipe_capacity = None, exit_code = 0\<rparr>
       \<lparr>is_opened = True, cap_width = 8, cap_height = 4, cap_fps = 1, cap_frame_count = 3,
        cap_frames = [0, 1, 2]\<rparr>)) = 3 \<and>
   smoothed_x (states (crop_screen_tracking (\<lambda>p c :: nat. [[(0, 0), (0, 0), (0, 0)]])
       \<lparr>pipe_capacity = None, exit_code = 0\<rparr>
       \<lparr>is_opened = True, cap_width = 8, cap_height = 4, cap_fps = 1, cap_frame_count = 3,
        cap_frames = [0, 1, 2]\<rparr>) ! 2) = 0"
proof -
  define cap :: "nat video" where "cap = \<lparr>is_opened = True, cap_width = 8, cap_height = 4,
    cap_fps = 1, cap_frame_count = 3, cap_frames = [0, 1, 2]\<rparr>"
  define est :: "nat \<Rightarrow> nat \<Rightarrow> flow_field" where "est = (\<lambda>p c. [[(0, 0), (0, 0), (0, 0)]])"
  define r where "r = crop_screen_tracking est \<lparr>pipe_capacity = None, exit_code = 0\<rparr> cap"
  have m: "magnitude (0, 0) \<le> 2" by simp
  then have q: "\<forall>i < length (cap_frames cap).
             i mod nat (screen_update_interval (resolve_fps cap)) = 0 \<and>
             nat (screen_update_interval (resolve_fps cap)) \<le> i \<longrightarrow>
             (\<forall>row \<in> set (est
                            (cap_frames cap ! (i - nat (screen_update_interval (resolve_fps cap))))
                            (cap_frames cap ! i)).
                \<forall>v \<in> set row. magnitude v \<le> 2)"
    by (simp add: est_def)
  have "map smoothed_x (states r) = [0, 0, 0]"
    unfolding r_def est_def cap_def by (rule still_example)
  from arg_cong [OF this, of length] have len: "length (states r) = 3" by simp
  then have "states r ! 2 \<in> set (states r)" by simp
  with still_input_keeps_pan [OF q, of "\<lparr>pipe_capacity = None, exit_code = 0\<rparr>"]
  have "smoothed_x (states r ! 2) = 0" unfolding r_def by blast
  then show ?thesis
    using m len unfolding r_def [symmetric] est_def [symmetric] cap_def [symmetric] by blast
qed

lemma pan_example_run:
  "map smoothed_x (states (crop_screen_tracking (\<lambda>p c :: nat. [[(0, 0), (0, 0), (3, 0)]])
       \<lparr>pipe_capacity = None, exit_code = 0\<rparr>
       \<lparr>is_opened = True, cap_width = 8, cap_height = 4, cap_fps = 1, cap_frame_count = 2,
        cap_frames = [0, 1]\<rparr>)) = [0, 0]"
  by (simp add: crop_screen_tracking_def tiny_geometry resolve_fps_def py_int_def
      screen_update_interval_def
      screen_initial_def screen_step_def tiny_target tiny_render pipe_accepts_def Let_def
      smooth_pan_def)

text \<open>
  C9, as claimed: at an update point with significant motion the new \<open>smoothed_x\<close> is
  exactly \<open>0.9 * smoothed_x + 0.1 * target_x\<close>, kept as a float. On an 8x4 source at
  1 fps, scaled to 3x1, whose second frame has flow \<open>(3, 0)\<close> in the last column, the
  target is 1 and \<open>smoothed_x\<close> stays the integer 0, not 0.1.
\<close>

theorem pan_smoothing_counterexample:
  "motion_target \<lparr>sc_target_width = 2, sc_target_height = 4, sc_scaled_width = 3,
      sc_scaled_height = 1, sc_update_interval = 1, sc_total_frames = 2\<rparr>
     [[(0, 0), (0, 0), (3, 0)]] = Some 1 \<and>
   map smoothed_x (states (crop_screen_tracking (\<lambda>p c :: nat. [[(0, 0), (0, 0), (3, 0)]])
       \<lparr>pipe_capacity = None, exit_code = 0\<rparr>
       \<lparr>is_opened = True, cap_width = 8, cap_height = 4, cap_fps = 1, cap_frame_count = 2,
        cap_frames = [0, 1]\<rparr>)) = [0, 0] \<and>
   real_of_int 0 \<noteq> 9 / 10 * real_of_int 0 + 1 / 10 * real_of_int 1"
  using tiny_target [of 2] pan_example_run by simp

lemma smooth_pan_nonneg:
  assumes "0 \<le> s" "0 \<le> t"
  shows "smooth_pan s t = (9 * s + t) div 10"
proof -
  have "9 / 10 * real_of_int s + 1 / 10 * real_of_int t = real_of_int (9 * s + t) / real_of_int 10"
    by simp
  moreover have "0 \<le> real_of_int (9 * s + t) / real_of_int 10"
    using assms by (intro divide_nonneg_nonneg) simp_all
  ultimately show ?thesis
    unfolding smooth_pan_def py_int_def
    by (simp only: floor_divide_of_int_eq if_True)
qed

lemma motion_target_nonneg: "motion_target cfg flow = Some t \<Longrightarrow> 0 \<le> t"
  by (auto simp: motion_target_def Let_def split: if_splits)

text \<open>
  C9, amended: at every update point with significant motion the new \<open>smoothed_x\<close> is
  \<open>int(0.9 * smoothed_x + 0.1 * target_x)\<close>, the weighted sum truncated to an integer,
  that is \<open>(9 * smoothed_x + target_x) div 10\<close> for the non-negative values the pass
  produces; \<open>smoothed_x\<close> is an integer throughout.
\<close>

theorem pan_smoothing_truncates:
  assumes "screen_frame_idx st mod sc_update_interval cfg = 0"
    and "prev_gray st = Some prev"
    and "motion_target cfg (estimate prev frame) = Some target_x"
    and "0 \<le> smoothed_x st"
  shows "smoothed_x (screen_step cfg estimate st frame) =
           \<lfloor>9 / 10 * real_of_int (smoothed_x st) + 1 / 10 * real_of_int target_x\<rfloor> \<and>
         smoothed_x (screen_step cfg estimate st frame) = (9 * smoothed_x st + target_x) div 10 \<and>
         0 \<le> smoothed_x (screen_step cfg estimate st frame)"
proof -
  have t: "0 \<le> target_x" using assms(3) by (rule motion_target_nonneg)
  have s: "smoothed_x (screen_step cfg estimate st frame) = smooth_pan (smoothed_x st) target_x"
    using assms(1-3) by (simp add: screen_step_def Let_def)
  have r: "0 \<le> 9 / 10 * real_of_int (smoothed_x st) + 1 / 10 * real_of_int target_x"
    using assms(4) t by simp
  have d: "0 \<le> (9 * smoothed_x st + target_x) div 10"
    using assms(4) t by (simp add: pos_imp_zdiv_nonneg_iff)
  show ?thesis
    using s r d smooth_pan_nonneg [OF assms(4) t]
    by (simp add: smooth_pan_def py_int_def)
qed

theorem pan_smoothing_truncates_witness:
  "(1::int) mod 1 = 0 \<and>
   motion_target \<lparr>sc_target_width = 2, sc_target_height = 4, sc_scaled_width = 3,
      sc_scaled_height = 1, sc_update_interval = 1, sc_total_frames = 2\<rparr>
     [[(0, 0), (0, 0), (3, 0)]] = Some 1 \<and>
   smoothed_x (screen_step \<lparr>sc_target_width = 2, sc_target_height = 4, sc_scaled_width = 3,
      sc_scaled_height = 1, sc_update_interval = 1, sc_total_frames = 2\<rparr>
     (\<lambda>p c :: nat. [[(0, 0), (0, 0), (3, 0)]])
     \<lparr>smoothed_x = 1, prev_gray = Some 0, screen_frame_idx = 1\<rparr> 1) = 1"
proof -
  define cfg where "cfg = \<lparr>sc_target_width = 2, sc_target_height = 4, sc_scaled_width = 3,
      sc_scaled_height = 1, sc_update_interval = 1, sc_total_frames = 2\<rparr>"
  define st :: "nat screen_state" where
    "st = \<lparr>smoothed_x = 1, prev_gray = Some 0, screen_frame_idx = 1\<rparr>"
  define est :: "nat \<Rightarrow> nat \<Rightarrow> flow_field" where "est = (\<lambda>p c. [[(0, 0), (0, 0), (3, 0)]])"
  have a: "screen_frame_idx st mod sc_update_interval cfg = 0" by (simp add: st_def cfg_def)
  have b: "prev_gray st = Some 0" by (simp add: st_def)
  have c: "motion_target cfg (est 0 1) = Some 1"
    unfolding cfg_def est_def by (rule tiny_target)
  have d: "0 \<le> smoothed_x st" by (simp add: st_def)
  from pan_smoothing_truncates [where estimate = est and frame = 1 and prev = 0, OF a b c d]
  have "smoothed_x (screen_step cfg est st 1) = 1" by (simp add: st_def)
  then show ?thesis
    using c unfolding cfg_def [symmetric] st_def [symmetric] est_def [symmetric]
    by (simp add: est_def)
qed

subsection \<open>Mode selection and entry point\<close>

text \<open>
  C10. When the input cannot be opened, \<open>detect_face_centers\<close> returns the empty list
  and raises nothing; in auto mode \<open>main\<close> therefore selects the screen planner, and the
  failure to open is reported only by \<open>crop_screen_tracking\<close>, with exit status 1.
\<close>

theorem unreadable_input_selects_screen:
  assumes "\<not> is_opened cap"
  shows "detect_face_centers detect cap max_samples = [] \<and>
         main detect estimate snk Auto cap = (Screen, Some UnableToOpenScreen, 1)"
  using assms
  by (simp add: detect_face_centers_def main_def crop_screen_tracking_def failed_def)

theorem unreadable_input_selects_screen_witness:
  "\<not> is_opened \<lparr>is_opened = False, cap_width = 0, cap_height = 0, cap_fps = 0,
      cap_frame_count = 0, cap_frames = ([] :: nat list)\<rparr> \<and>
   main (\<lambda>frame. [(10, 10, 50, 50, 1)]) (\<lambda>p c. []) \<lparr>pipe_capacity = None, exit_code = 0\<rparr> Auto
     \<lparr>is_opened = False, cap_width = 0, cap_height = 0, cap_fps = 0,
      cap_frame_count = 0, cap_frames = ([] :: nat list)\<rparr>
     = (Screen, Some UnableToOpenScreen, 1)"
  using unreadable_input_selects_screen [of "\<lparr>is_opened = False, cap_width = 0, cap_height = 0,
      cap_fps = 0, cap_frame_count = 0, cap_frames = ([] :: nat list)\<rparr>"
      "\<lambda>frame. [(10, 10, 50, 50, 1)]" 12 "\<lambda>p c. []" "\<lparr>pipe_capacity = None, exit_code = 0\<rparr>"]
  by simp

text \<open>For comparison, a readable input with a face in view runs the face planner.\<close>

lemma readable_input_centers:
  "detect_face_centers (\<lambda>frame :: nat. [(800, 300, 300, 300, 9 / 10)])
     \<lparr>is_opened = True, cap_width = 1920, cap_height = 1080, cap_fps = 30,
      cap_frame_count = 2, cap_frames = [0, 1]\<rparr> 12 = [950, 950]"
  by code_simp

lemma readable_input_with_face_selects_face:
  "fst (main (\<lambda>frame :: nat. [(800, 300, 300, 300, 9 / 10)]) estimate snk Auto
          \<lparr>is_opened = True, cap_width = 1920, cap_height = 1080, cap_fps = 30,
           cap_frame_count = 2, cap_frames = [0, 1]\<rparr>) = Face"
  using readable_input_centers by (simp add: main_def Let_def)

end
